theory Spec2Isabelle
  imports Main "HOL-Library.Char_ord" "HOL-Library.List_Lexorder" "HOL-Library.Sublist"
    "HOL-Library.AList" "HOL-Library.Multiset"
begin

section \<open>Python values, exceptions and the session store\<close>

text \<open>
  The module \<^verbatim>\<open>main/logger.py\<close> holds a level resolver (\<^verbatim>\<open>get_level\<close>), the logger
  set-up (\<^verbatim>\<open>load_base_loggers_config\<close>) and two decorators (\<^verbatim>\<open>log\<close>, \<^verbatim>\<open>log_train\<close>).
  Exceptions are values of \<open>exn\<close>; a call that may raise returns \<open>exn + 'a\<close> with
  \<open>Inl\<close> for the raised exception. Both decorators catch with
  \<^verbatim>\<open>except Exception as e\<close>, which does not match the exceptions that derive from
  \<^verbatim>\<open>BaseException\<close> only (\<^verbatim>\<open>KeyboardInterrupt\<close>, \<^verbatim>\<open>SystemExit\<close>, \<^verbatim>\<open>GeneratorExit\<close>):
  \<open>BaseRaised\<close> stands for those, every other constructor for an instance of
  \<^verbatim>\<open>Exception\<close>.
\<close>

datatype exn =
    KeyError string
  | IndexError
  | AttributeError
  | TypeError
  | Raised string
  | BaseRaised string

fun is_Exception :: "exn \<Rightarrow> bool" where
  "is_Exception (BaseRaised _) = False"
| "is_Exception _ = True"

text \<open>
  A pandas series has a name (\<open>None\<close> when it is unnamed) and a sequence of cells;
  a cell is an integer class code or a text. The other values a positional argument
  can be are a string, \<^verbatim>\<open>None\<close> and an opaque object.
\<close>

datatype cell = Num int | Txt string

datatype pyval =
    Series "string option" "cell list"
  | Str string
  | NoneV
  | Obj nat

text \<open>
  The flask session is read with \<^verbatim>\<open>session[file][section][key]\<close>; each level is a
  dictionary and a missing key raises \<^verbatim>\<open>KeyError\<close>. \<^verbatim>\<open>session['session_id']\<close> is a
  fourth entry.
\<close>

type_synonym ini = "string \<rightharpoonup> (string \<rightharpoonup> string list)"

record session =
  ini_files :: "string \<rightharpoonup> ini"
  session_id :: "string option"

definition session_get :: "session \<Rightarrow> string \<Rightarrow> string \<Rightarrow> string \<Rightarrow> exn + string list" where
  "session_get s file sect key =
     (case ini_files s file of
        None \<Rightarrow> Inl (KeyError file)
      | Some ini \<Rightarrow>
          (case ini sect of
             None \<Rightarrow> Inl (KeyError sect)
           | Some kv \<Rightarrow>
               (case kv key of
                  None \<Rightarrow> Inl (KeyError key)
                | Some vs \<Rightarrow> Inr vs)))"

section \<open>Level Resolver\<close>

text \<open>
  \<^verbatim>\<open>
  def get_level(logger, level):
      if level == 'INFO':
          return logging.INFO
      elif level == 'ERROR':
          return logging.ERROR
      elif logging == 'DO NOT LOG':
          return None
  \<close>
  The third test compares the imported module \<^verbatim>\<open>logging\<close>, not \<^verbatim>\<open>level\<close>, with a
  string; a module object is never equal to a string, so the test is false and the
  function falls off its end, which returns \<^verbatim>\<open>None\<close> as well.
\<close>

definition logging_INFO :: nat where
  "logging_INFO = 20"

definition logging_ERROR :: nat where
  "logging_ERROR = 40"

definition module_eq_str :: "string \<Rightarrow> string \<Rightarrow> bool" where
  "module_eq_str module_name s = False"

definition get_level :: "'lg \<Rightarrow> string \<Rightarrow> nat option" where
  "get_level logger level =
     (if level = ''INFO'' then Some logging_INFO
      else if level = ''ERROR'' then Some logging_ERROR
      else if module_eq_str ''logging'' ''DO NOT LOG'' then None
      else None)"

section \<open>The logging library and the outside world\<close>

text \<open>
  A logger object is shared by reference through the registry of the logging
  library: \<^verbatim>\<open>logging.getLogger(name)\<close> returns the logger registered under the name and
  registers a fresh one (level \<^verbatim>\<open>NOTSET\<close>, no handler) when there is none. The model
  keeps the registry in the world and refers to a logger by its name. A handler is
  the rotating file handler the set-up attaches; a line of the log sink records the
  file it went to, its severity, the logger's name and the message.
\<close>

record handler =
  h_filename :: string
  h_maxBytes :: nat
  h_backupCount :: nat
  h_formatter :: string

record logger =
  lg_level :: nat
  lg_handlers :: "handler list"

record log_line =
  l_file :: string
  l_levelno :: nat
  l_name :: string
  l_message :: string

text \<open>
  The calls that leave the module are recorded, in order, in the world's trace: the
  call of the wrapped function with the positional and keyword arguments it was
  given, the directory creation, the opening of the log file, the loading of the
  persisted model and the calls into the evaluation library.
\<close>

datatype event =
    CallFunc "pyval list" "(string \<times> pyval) list"
  | MakeDirs string
  | OpenLogFile string
  | LoadModel string
  | CrossValPredict pyval pyval nat nat
  | ClassificationReport "cell list" "cell list" "string list"
  | AccuracyScore "cell list" "cell list"
  | RocAucScore "cell list" "cell list"
  | MatthewsCorrcoef "cell list" "cell list"

record 'u world =
  loggers :: "(string \<times> logger) list"
  sink :: "log_line list"
  trace :: "event list"
  ustate :: 'u

text \<open>
  What the module imports is a parameter of the model: the flask session, the clock,
  the file system (\<^verbatim>\<open>is_file_exist\<close> of \<^verbatim>\<open>main.file_processor\<close>, \<^verbatim>\<open>os.makedirs\<close>, the
  opening of the log file by the handler's constructor), the text forms used in the
  messages, \<^verbatim>\<open>pickle.load(open(...))\<close> and the functions of scikit-learn. Each of them
  that can raise returns an \<open>exn\<close>. They read the state \<open>'u\<close> the wrapped function
  works on; only the wrapped function changes it.
\<close>

record ('u, 'm) env =
  flask_session :: session
  today :: "'u \<Rightarrow> string"
  now :: "'u \<Rightarrow> int"
  str_timedelta :: "int \<Rightarrow> string"
  is_file_exist :: "string \<Rightarrow> 'u \<Rightarrow> bool"
  makedirs :: "string \<Rightarrow> 'u \<Rightarrow> exn option"
  open_log_file :: "string \<Rightarrow> 'u \<Rightarrow> exn option"
  format_exc :: "exn \<Rightarrow> string"
  repr_args :: "pyval list \<Rightarrow> string"
  repr_kwargs :: "(string \<times> pyval) list \<Rightarrow> string"
  str_result :: "pyval \<Rightarrow> string"
  pickle_load :: "string \<Rightarrow> 'u \<Rightarrow> exn + 'm"
  cross_val_predict :: "'m \<Rightarrow> pyval \<Rightarrow> pyval \<Rightarrow> nat \<Rightarrow> nat \<Rightarrow> exn + cell list"
  classification_report :: "cell list \<Rightarrow> cell list \<Rightarrow> string list \<Rightarrow> exn + string"
  accuracy_score :: "cell list \<Rightarrow> cell list \<Rightarrow> exn + string"
  roc_auc_score :: "cell list \<Rightarrow> cell list \<Rightarrow> exn + string"
  matthews_corrcoef :: "cell list \<Rightarrow> cell list \<Rightarrow> exn + string"

text \<open>
  The decorated function: its \<^verbatim>\<open>__name__\<close>, its \<^verbatim>\<open>__module__\<close> and its body, which takes
  the positional and the keyword arguments, returns a value or raises, and changes
  the state \<open>'u\<close>.
\<close>

record 'u func =
  f_name :: string
  f_module :: string
  f_body :: "pyval list \<Rightarrow> (string \<times> pyval) list \<Rightarrow> 'u \<Rightarrow> (exn + pyval) \<times> 'u"

definition call_func ::
  "'u func \<Rightarrow> pyval list \<Rightarrow> (string \<times> pyval) list \<Rightarrow> 'u world \<Rightarrow> (exn + pyval) \<times> 'u world" where
  "call_func f args kwargs w =
     (case f_body f args kwargs (ustate w) of
        (r, u) \<Rightarrow> (r, w\<lparr>trace := trace w @ [CallFunc args kwargs], ustate := u\<rparr>))"

definition getLogger :: "string \<Rightarrow> 'u world \<Rightarrow> 'u world" where
  "getLogger nm w =
     (case map_of (loggers w) nm of
        Some lg \<Rightarrow> w
      | None \<Rightarrow> w\<lparr>loggers := loggers w @ [(nm, \<lparr>lg_level = 0, lg_handlers = []\<rparr>)]\<rparr>)"

definition setLevel :: "string \<Rightarrow> nat \<Rightarrow> 'u world \<Rightarrow> 'u world" where
  "setLevel nm lv w =
     (case map_of (loggers w) nm of
        None \<Rightarrow> w
      | Some lg \<Rightarrow> w\<lparr>loggers := AList.update nm (lg\<lparr>lg_level := lv\<rparr>) (loggers w)\<rparr>)"

definition addHandler :: "string \<Rightarrow> handler \<Rightarrow> 'u world \<Rightarrow> 'u world" where
  "addHandler nm h w =
     (case map_of (loggers w) nm of
        None \<Rightarrow> w
      | Some lg \<Rightarrow>
          w\<lparr>loggers := AList.update nm (lg\<lparr>lg_handlers := lg_handlers lg @ [h]\<rparr>) (loggers w)\<rparr>)"

text \<open>
  \<^verbatim>\<open>Logger.info\<close> and \<^verbatim>\<open>Logger.error\<close> emit a record only when the severity is at
  least the level of the logger; an emitted record is written once to each handler
  of the logger.
\<close>

definition logger_log :: "nat \<Rightarrow> string \<Rightarrow> string \<Rightarrow> 'u world \<Rightarrow> 'u world" where
  "logger_log lv nm msg w =
     (case map_of (loggers w) nm of
        None \<Rightarrow> w
      | Some lg \<Rightarrow>
          if lg_level lg \<le> lv
          then w\<lparr>sink := sink w @
                  map (\<lambda>h. \<lparr>l_file = h_filename h, l_levelno = lv, l_name = nm, l_message = msg\<rparr>)
                    (lg_handlers lg)\<rparr>
          else w)"

definition logger_info :: "string \<Rightarrow> string \<Rightarrow> 'u world \<Rightarrow> 'u world" where
  "logger_info nm msg w = logger_log logging_INFO nm msg w"

definition logger_error :: "string \<Rightarrow> string \<Rightarrow> 'u world \<Rightarrow> 'u world" where
  "logger_error nm msg w = logger_log logging_ERROR nm msg w"

section \<open>Logger set-up\<close>

text \<open>
  \<^verbatim>\<open>load_base_loggers_config(func)\<close>: get the logger named after the function, resolve
  the level found in the session, return \<^verbatim>\<open>None\<close> when \<^verbatim>\<open>not level\<close> (the level is
  \<^verbatim>\<open>None\<close> or zero), otherwise set the level and, when the logger has no handler yet,
  create the directory of the day if it is missing and attach a rotating file handler
  (50 MiB, 10 backups) on the session's log file. The result is the logger (its name).
\<close>

definition load_base_loggers_config ::
  "('u, 'm) env \<Rightarrow> 'u func \<Rightarrow> 'u world \<Rightarrow> (exn + string option) \<times> 'u world" where
  "load_base_loggers_config env f w =
     (let logger = f_name f; w1 = getLogger logger w in
      case session_get (flask_session env) ''config.ini'' ''DEFECT_ATTRIBUTES'' ''logging_level'' of
        Inl e \<Rightarrow> (Inl e, w1)
      | Inr [] \<Rightarrow> (Inl IndexError, w1)
      | Inr (lv # _) \<Rightarrow>
          (case get_level logger lv of
             None \<Rightarrow> (Inr None, w1)
           | Some level \<Rightarrow>
               if level = 0 then (Inr None, w1)
               else
                 let w2 = setLevel logger level w1 in
                 if (case map_of (loggers w2) logger of None \<Rightarrow> 0 | Some lg \<Rightarrow> length (lg_handlers lg)) \<noteq> 0
                 then (Inr (Some logger), w2)
                 else
                   let date = today env (ustate w2);
                       dir = ''logs/'' @ date @ ''/'';
                       made = (if \<not> is_file_exist env dir (ustate w2)
                               then (makedirs env dir (ustate w2), w2\<lparr>trace := trace w2 @ [MakeDirs dir]\<rparr>)
                               else (None, w2))
                   in (case made of
                         (Some e, w3) \<Rightarrow> (Inl e, w3)
                       | (None, w3) \<Rightarrow>
                           (case session_id (flask_session env) of
                              None \<Rightarrow> (Inl (KeyError ''session_id''), w3)
                            | Some sid \<Rightarrow>
                                let fn = ''logs/'' @ date @ ''/'' @ sid @ ''.log'';
                                    w4 = w3\<lparr>trace := trace w3 @ [OpenLogFile fn]\<rparr>
                                in (case open_log_file env fn (ustate w4) of
                                      Some e \<Rightarrow> (Inl e, w4)
                                    | None \<Rightarrow>
                                        let file_handler =
                                              \<lparr>h_filename = fn, h_maxBytes = 50 * 1024 * 1024,
                                               h_backupCount = 10,
                                               h_formatter = ''%(asctime)s - %(name)s - %(levelname)s - %(message)s''\<rparr>
                                        in (Inr (Some logger), addHandler logger file_handler w4))))))"

section \<open>Call Logger\<close>

definition nl :: char where
  "nl = CHR 0x0A"

text \<open>
  The decorator \<^verbatim>\<open>log\<close>. Without a logger the wrapped function is called with the
  positional and keyword arguments and its result returned. With a logger, an
  exception caught by \<^verbatim>\<open>except Exception as e\<close> is logged at error severity and
  raised again; a normal result is logged at info severity and returned. The message
  literal continues over two lines, so twelve blanks stand before each line break.
\<close>

definition call_message ::
  "('u, 'm) env \<Rightarrow> 'u func \<Rightarrow> pyval list \<Rightarrow> (string \<times> pyval) list \<Rightarrow> int \<Rightarrow> pyval \<Rightarrow> string" where
  "call_message env f args kwargs elapsed func_result =
     ''function: '' @ f_module f @ ''.'' @ f_name f @ '', arguments:'' @ f_name f @ ''(''
       @ repr_args env args @ '','' @ repr_kwargs env kwargs @ '') '' @ replicate 12 CHR '' ''
       @ [nl] @ ''total execution date: '' @ str_timedelta env elapsed @ replicate 12 CHR '' ''
       @ [nl] @ ''functions_result: '' @ str_result env func_result @ [nl]"

definition log ::
  "('u, 'm) env \<Rightarrow> 'u func \<Rightarrow> pyval list \<Rightarrow> (string \<times> pyval) list \<Rightarrow> 'u world
     \<Rightarrow> (exn + pyval) \<times> 'u world" where
  "log env f args kwargs w =
     (case load_base_loggers_config env f w of
        (Inl e, w1) \<Rightarrow> (Inl e, w1)
      | (Inr None, w1) \<Rightarrow> call_func f args kwargs w1
      | (Inr (Some logger), w1) \<Rightarrow>
          let start = now env (ustate w1) in
          (case call_func f args kwargs w1 of
             (Inl e, w2) \<Rightarrow>
               if is_Exception e then (Inl e, logger_error logger (format_exc env e) w2)
               else (Inl e, w2)
           | (Inr func_result, w2) \<Rightarrow>
               (Inr func_result,
                logger_info logger
                  (call_message env f args kwargs (now env (ustate w2) - start) func_result) w2)))"

section \<open>Training Report Builder\<close>

text \<open>
  \<^verbatim>\<open>str(x)\<close> of a natural number is its decimal numeral; \<^verbatim>\<open>Series.unique()\<close> keeps the
  first occurrence of each value, in order; \<^verbatim>\<open>str.lower()\<close> maps the capital letters
  to the small ones (names are read as ASCII); \<^verbatim>\<open>x in s\<close> on strings is the contiguous
  substring test \<open>sublist\<close>.
\<close>

definition digit :: "nat \<Rightarrow> char" where
  "digit d = ''0123456789'' ! d"

fun str_nat :: "nat \<Rightarrow> string" where
  "str_nat n = (if n < 10 then [digit n] else str_nat (n div 10) @ [digit (n mod 10)])"

declare str_nat.simps [simp del]

definition unique :: "'a list \<Rightarrow> 'a list" where
  "unique xs = rev (remdups (rev xs))"

definition lower_char :: "char \<Rightarrow> char" where
  "lower_char c =
     (case map_of (zip ''ABCDEFGHIJKLMNOPQRSTUVWXYZ'' ''abcdefghijklmnopqrstuvwxyz'') c of
        None \<Rightarrow> c
      | Some d \<Rightarrow> d)"

definition lower :: "string \<Rightarrow> string" where
  "lower s = map lower_char s"

text \<open>
  \<^verbatim>\<open>sorted(areas)\<close>: integers sort by value, texts lexicographically; a sequence that
  mixes the two raises \<^verbatim>\<open>TypeError\<close> at the first comparison across the types.
\<close>

fun nums :: "cell list \<Rightarrow> int list option" where
  "nums [] = Some []"
| "nums (Num n # xs) = map_option (Cons n) (nums xs)"
| "nums (Txt t # xs) = None"

fun txts :: "cell list \<Rightarrow> string list option" where
  "txts [] = Some []"
| "txts (Txt t # xs) = map_option (Cons t) (txts xs)"
| "txts (Num n # xs) = None"

definition py_sorted :: "cell list \<Rightarrow> exn + cell list" where
  "py_sorted xs =
     (case nums xs of
        Some ns \<Rightarrow> Inr (map Num (sort ns))
      | None \<Rightarrow>
          (case txts xs of
             Some ts \<Rightarrow> Inr (map Txt (sort ts))
           | None \<Rightarrow> Inl TypeError))"

fun cell_le :: "cell \<Rightarrow> cell \<Rightarrow> bool" where
  "cell_le (Num a) (Num b) = (a \<le> b)"
| "cell_le (Txt a) (Txt b) = (a \<le> b)"
| "cell_le _ _ = False"

text \<open>
  \<^verbatim>\<open>__get_prediction(description, field_values, model_path)\<close>: the model is unpickled
  from \<^verbatim>\<open>model_path + '.sav'\<close> (a path that is no string raises \<^verbatim>\<open>TypeError\<close>) and handed
  to \<^verbatim>\<open>cross_val_predict\<close> with \<^verbatim>\<open>cv=10, n_jobs=4\<close>.
\<close>

definition get_prediction ::
  "('u, 'm) env \<Rightarrow> pyval \<Rightarrow> pyval \<Rightarrow> pyval \<Rightarrow> 'u world \<Rightarrow> (exn + cell list) \<times> 'u world" where
  "get_prediction env description field_values model_path w =
     (case model_path of
        Str p \<Rightarrow>
          let w1 = w\<lparr>trace := trace w @ [LoadModel (p @ ''.sav'')]\<rparr> in
          (case pickle_load env (p @ ''.sav'') (ustate w1) of
             Inl e \<Rightarrow> (Inl e, w1)
           | Inr model \<Rightarrow>
               let w2 = w1\<lparr>trace := trace w1 @ [CrossValPredict description field_values 10 4]\<rparr> in
               (case cross_val_predict env model description field_values 10 4 of
                  Inl e \<Rightarrow> (Inl e, w2)
                | Inr prediction \<Rightarrow> (Inr prediction, w2)))
      | _ \<Rightarrow> (Inl TypeError, w))"

text \<open>
  The report line: the elapsed time, the area name and the reports, under the
  headings of the format string.
\<close>

definition report_text :: "string \<Rightarrow> string \<Rightarrow> string \<Rightarrow> string" where
  "report_text time areas_name reports =
     [nl] @ ''total execution time: '' @ time @ '' '' @ [nl] @ ''areas_name: '' @ areas_name
       @ '' '' @ [nl] @ reports"

definition str_name :: "string option \<Rightarrow> string" where
  "str_name name = (case name of None \<Rightarrow> ''None'' | Some s \<Rightarrow> s)"

text \<open>
  The branch taken when no target name lies outside \<^verbatim>\<open>{'0', '1'}\<close>: the classification
  report on the labels as they are, then accuracy, ROC-AUC and the Matthews
  correlation coefficient, evaluated left to right.
\<close>

definition binary_report ::
  "('u, 'm) env \<Rightarrow> string option \<Rightarrow> cell list \<Rightarrow> cell list \<Rightarrow> string list \<Rightarrow> int \<Rightarrow> 'u world
     \<Rightarrow> (exn + string) \<times> 'u world" where
  "binary_report env name vals prediction target_names start w =
     (let time = str_timedelta env (now env (ustate w) - start);
          w1 = w\<lparr>trace := trace w @ [ClassificationReport vals prediction target_names]\<rparr>
      in (case classification_report env vals prediction target_names of
            Inl e \<Rightarrow> (Inl e, w1)
          | Inr rep \<Rightarrow>
              let w2 = w1\<lparr>trace := trace w1 @ [AccuracyScore vals prediction]\<rparr> in
              (case accuracy_score env vals prediction of
                 Inl e \<Rightarrow> (Inl e, w2)
               | Inr acc \<Rightarrow>
                   let w3 = w2\<lparr>trace := trace w2 @ [RocAucScore vals prediction]\<rparr> in
                   (case roc_auc_score env vals prediction of
                      Inl e \<Rightarrow> (Inl e, w3)
                    | Inr roc \<Rightarrow>
                        let w4 = w3\<lparr>trace := trace w3 @ [MatthewsCorrcoef vals prediction]\<rparr> in
                        (case matthews_corrcoef env vals prediction of
                           Inl e \<Rightarrow> (Inl e, w4)
                         | Inr mcc \<Rightarrow>
                             (Inr (report_text time (str_name name)
                                     (rep @ [nl] @ ''accuracy_score '' @ acc @ [nl]
                                        @ ''roc_auc_score '' @ roc @ [nl]
                                        @ ''matthews_corrcoef '' @ mcc @ [nl])), w4))))))"

text \<open>
  The other branch. The area name comes from the lower-cased name of the series
  (\<^verbatim>\<open>areas.name.lower()\<close> raises \<^verbatim>\<open>AttributeError\<close> on an unnamed series); the report is
  built on \<^verbatim>\<open>sorted(areas)\<close>, the prediction as it is, and the class names the session
  holds under the area name followed by \<^verbatim>\<open>_classes\<close>.
\<close>

definition areas_name_of :: "string \<Rightarrow> string" where
  "areas_name_of name =
     (if sublist ''priority'' (lower name) then ''priority''
      else if sublist ''ttr'' (lower name) then ''ttr''
      else [])"

definition multiclass_report ::
  "('u, 'm) env \<Rightarrow> string option \<Rightarrow> cell list \<Rightarrow> cell list \<Rightarrow> int \<Rightarrow> 'u world
     \<Rightarrow> (exn + string) \<times> 'u world" where
  "multiclass_report env name vals prediction start w =
     (case name of
        None \<Rightarrow> (Inl AttributeError, w)
      | Some s \<Rightarrow>
          let areas_name = areas_name_of s;
              time = str_timedelta env (now env (ustate w) - start)
          in (case py_sorted vals of
                Inl e \<Rightarrow> (Inl e, w)
              | Inr y_true \<Rightarrow>
                  (case session_get (flask_session env) ''predictions_parameters.ini''
                          ''predictions_parameters'' (areas_name @ ''_classes'') of
                     Inl e \<Rightarrow> (Inl e, w)
                   | Inr target_names \<Rightarrow>
                       let w1 = w\<lparr>trace := trace w @ [ClassificationReport y_true prediction target_names]\<rparr>
                       in (case classification_report env y_true prediction target_names of
                             Inl e \<Rightarrow> (Inl e, w1)
                           | Inr rep \<Rightarrow> (Inr (report_text time areas_name rep), w1)))))"

text \<open>
  The decorator \<^verbatim>\<open>log_train\<close>. Without a logger the wrapped function is called with
  the positional arguments and the call returns \<^verbatim>\<open>None\<close>. With a logger the first, the
  second and the last positional argument are read (\<^verbatim>\<open>IndexError\<close> when there are fewer
  than two), the target names are the numerals below the number of distinct labels,
  the wrapped function is called with the positional arguments, the prediction is
  computed, one of the two reports is built and logged at info severity, and the
  call falls off its end.
\<close>

definition log_train ::
  "('u, 'm) env \<Rightarrow> 'u func \<Rightarrow> pyval list \<Rightarrow> (string \<times> pyval) list \<Rightarrow> 'u world
     \<Rightarrow> (exn + pyval) \<times> 'u world" where
  "log_train env f args kwargs w =
     (case load_base_loggers_config env f w of
        (Inl e, w1) \<Rightarrow> (Inl e, w1)
      | (Inr None, w1) \<Rightarrow>
          (case call_func f args [] w1 of
             (Inl e, w2) \<Rightarrow> (Inl e, w2)
           | (Inr func_result, w2) \<Rightarrow> (Inr NoneV, w2))
      | (Inr (Some logger), w1) \<Rightarrow>
          (case args of
             [] \<Rightarrow> (Inl IndexError, w1)
           | [descr] \<Rightarrow> (Inl IndexError, w1)
           | descr # areas # rest \<Rightarrow>
               let model_path = last args in
               (case areas of
                  Series name vals \<Rightarrow>
                    let target_names = map str_nat [0..<length (unique vals)];
                        start = now env (ustate w1)
                    in (case call_func f args [] w1 of
                          (Inl e, w2) \<Rightarrow>
                            if is_Exception e
                            then (Inl e, logger_error logger (format_exc env e) w2)
                            else (Inl e, w2)
                        | (Inr func_result, w2) \<Rightarrow>
                            (case get_prediction env descr areas model_path w2 of
                               (Inl e, w3) \<Rightarrow> (Inl e, w3)
                             | (Inr prediction, w3) \<Rightarrow>
                                 (case (if set target_names - set [''0'', ''1''] = {}
                                        then binary_report env name vals prediction target_names start w3
                                        else multiclass_report env name vals prediction start w3) of
                                    (Inl e, w4) \<Rightarrow> (Inl e, w4)
                                  | (Inr result, w4) \<Rightarrow> (Inr NoneV, logger_info logger result w4))))
                | _ \<Rightarrow> (Inl AttributeError, w1))))"

section \<open>A handler invariant and a concrete session\<close>

text \<open>
  The set-up attaches a handler only to a logger that has none, so a logger this
  module alone configures never has more than one. The statements about the number
  of lines written assume it of the logger of the wrapped function.
\<close>

definition at_most_one_handler :: "string \<Rightarrow> 'u world \<Rightarrow> bool" where
  "at_most_one_handler nm w =
     (case map_of (loggers w) nm of None \<Rightarrow> True | Some lg \<Rightarrow> length (lg_handlers lg) \<le> 1)"

text \<open>
  A concrete session, environment, wrapped function and world, on which the theorems
  are instantiated: the clock is the state of the wrapped function, which each call
  advances by five and which rejects keyword arguments; the prediction is the label
  sequence reversed.
\<close>

definition demo_session :: "string \<Rightarrow> session" where
  "demo_session lv =
     \<lparr>ini_files =
        [''config.ini'' \<mapsto> [''DEFECT_ATTRIBUTES'' \<mapsto> [''logging_level'' \<mapsto> [lv]]],
         ''predictions_parameters.ini'' \<mapsto>
           [''predictions_parameters'' \<mapsto>
              [''ttr_classes'' \<mapsto> [''fast'', ''medium'', ''slow''],
               ''priority_classes'' \<mapsto> [''low'', ''high'', ''urgent'']]]],
      session_id = Some ''s1''\<rparr>"

definition demo_env :: "string \<Rightarrow> (nat, nat) env" where
  "demo_env lv =
     \<lparr>flask_session = demo_session lv,
      today = (\<lambda>u. ''2019-01-01''),
      now = (\<lambda>u. int u),
      str_timedelta = (\<lambda>d. str_nat (nat d)),
      is_file_exist = (\<lambda>p u. False),
      makedirs = (\<lambda>p u. None),
      open_log_file = (\<lambda>p u. None),
      format_exc = (\<lambda>e. ''Traceback''),
      repr_args = (\<lambda>a. ''args''),
      repr_kwargs = (\<lambda>k. ''kwargs''),
      str_result = (\<lambda>r. ''result''),
      pickle_load = (\<lambda>p u. Inr 0),
      cross_val_predict = (\<lambda>m d a cv jobs. case a of Series n vs \<Rightarrow> Inr (rev vs) | _ \<Rightarrow> Inl TypeError),
      classification_report = (\<lambda>t p n. Inr ''report''),
      accuracy_score = (\<lambda>t p. Inr ''0.5''),
      roc_auc_score = (\<lambda>t p. Inr ''0.5''),
      matthews_corrcoef = (\<lambda>t p. Inr ''0.0'')\<rparr>"

definition demo_func :: "(exn + pyval) \<Rightarrow> nat func" where
  "demo_func r =
     \<lparr>f_name = ''train'', f_module = ''main.training'',
      f_body = (\<lambda>args kwargs u. (if kwargs = [] then r else Inl (Raised ''TypeError''), u + 5))\<rparr>"

definition demo_world :: "nat world" where
  "demo_world = \<lparr>loggers = [], sink = [], trace = [], ustate = 0\<rparr>"

definition demo_args :: "string \<Rightarrow> cell list \<Rightarrow> pyval list" where
  "demo_args name vals = [Series None [Txt ''a'', Txt ''b'', Txt ''c'', Txt ''d''], Series (Some name) vals, Str ''models/m'']"

definition demo_handler :: handler where
  "demo_handler =
     \<lparr>h_filename = ''logs/2019-01-01/s1.log'', h_maxBytes = 50 * 1024 * 1024, h_backupCount = 10,
      h_formatter = ''%(asctime)s - %(name)s - %(levelname)s - %(message)s''\<rparr>"

definition demo_ready :: "nat \<Rightarrow> nat world" where
  "demo_ready lv =
     \<lparr>loggers = [(''train'', \<lparr>lg_level = lv, lg_handlers = [demo_handler]\<rparr>)], sink = [],
      trace = [MakeDirs ''logs/2019-01-01/'', OpenLogFile ''logs/2019-01-01/s1.log''], ustate = 0\<rparr>"

section \<open>Properties of the Level Resolver\<close>

text \<open>
  C8. \<open>get_level\<close> maps \<open>''INFO''\<close> to the info severity and \<open>''ERROR''\<close> to the error
  severity, both different from \<open>None\<close>; every other string, the disable sentinel
  \<open>''DO NOT LOG''\<close> among them, is mapped to \<open>None\<close>. The function has no raising
  branch: its result is a plain \<open>nat option\<close>.
\<close>

theorem get_level_cases:
  "get_level lg ''INFO'' = Some logging_INFO
   \<and> get_level lg ''ERROR'' = Some logging_ERROR
   \<and> get_level lg ''INFO'' \<noteq> None
   \<and> get_level lg ''ERROR'' \<noteq> None
   \<and> get_level lg ''DO NOT LOG'' = None
   \<and> (level \<noteq> ''INFO'' \<longrightarrow> level \<noteq> ''ERROR'' \<longrightarrow> get_level lg level = None)"
  by (simp add: get_level_def)

theorem get_level_cases_witness:
  "''DEBUG'' \<noteq> ''INFO'' \<and> ''DEBUG'' \<noteq> ''ERROR'' \<and> get_level (0::nat) ''DEBUG'' = None
   \<and> get_level (0::nat) ''INFO'' = Some 20 \<and> get_level (0::nat) ''ERROR'' = Some 40"
  using get_level_cases [of "0::nat" "''DEBUG''"]
  by (simp add: logging_INFO_def logging_ERROR_def)

text \<open>
  C9. The result of \<open>get_level\<close> is a function of the level name alone: two calls
  with the same name agree, whatever the two logger arguments are.
\<close>

theorem get_level_logger_independent:
  "get_level lg1 level = get_level lg2 level"
  by (simp add: get_level_def)

section \<open>The logger set-up\<close>

lemma map_of_getLogger:
  "map_of (loggers (getLogger nm w)) nm =
     (case map_of (loggers w) nm of None \<Rightarrow> Some \<lparr>lg_level = 0, lg_handlers = []\<rparr> | Some lg \<Rightarrow> Some lg)"
  by (simp add: getLogger_def map_add_def split: option.splits)

lemma getLogger_frame [simp]:
  "sink (getLogger nm w) = sink w" "trace (getLogger nm w) = trace w" "ustate (getLogger nm w) = ustate w"
  by (simp_all add: getLogger_def split: option.splits)

lemma setLevel_frame [simp]:
  "sink (setLevel nm lv w) = sink w" "trace (setLevel nm lv w) = trace w" "ustate (setLevel nm lv w) = ustate w"
  by (simp_all add: setLevel_def split: option.splits)

lemma addHandler_frame [simp]:
  "sink (addHandler nm h w) = sink w" "trace (addHandler nm h w) = trace w" "ustate (addHandler nm h w) = ustate w"
  by (simp_all add: addHandler_def split: option.splits)

lemma map_of_setLevel:
  "map_of (loggers (setLevel nm lv w)) nm = map_option (\<lambda>lg. lg\<lparr>lg_level := lv\<rparr>) (map_of (loggers w) nm)"
  by (simp add: setLevel_def update_conv' split: option.splits)

lemma map_of_addHandler:
  "map_of (loggers (addHandler nm h w)) nm =
     map_option (\<lambda>lg. lg\<lparr>lg_handlers := lg_handlers lg @ [h]\<rparr>) (map_of (loggers w) nm)"
  by (simp add: addHandler_def update_conv' split: option.splits)

lemma get_level_Some: "get_level lg lv = Some n \<Longrightarrow> (lv = ''INFO'' \<and> n = logging_INFO) \<or> (lv = ''ERROR'' \<and> n = logging_ERROR)"
  by (auto simp: get_level_def split: if_splits)

lemma lbc_disabled:
  assumes "session_get (flask_session env) ''config.ini'' ''DEFECT_ATTRIBUTES'' ''logging_level'' = Inr (lv # lvs)"
    and "get_level (f_name f) lv = None"
  shows "load_base_loggers_config env f w = (Inr None, getLogger (f_name f) w)"
  using assms by (simp add: load_base_loggers_config_def Let_def)

lemma lbc_None:
  assumes "load_base_loggers_config env f w = (Inr None, w1)"
  shows "w1 = getLogger (f_name f) w \<and>
         (\<exists>lv lvs. session_get (flask_session env) ''config.ini'' ''DEFECT_ATTRIBUTES'' ''logging_level'' = Inr (lv # lvs)
            \<and> get_level (f_name f) lv = None)"
  using assms
  by (auto simp: load_base_loggers_config_def Let_def logging_INFO_def logging_ERROR_def
      dest!: get_level_Some
      split: sum.splits list.splits option.splits if_splits prod.splits)

lemma lbc_Some:
  assumes "load_base_loggers_config env f w = (Inr (Some lg), w1)"
  shows "lg = f_name f \<and> sink w1 = sink w \<and> ustate w1 = ustate w \<and>
         (\<exists>lv lvs level L.
            session_get (flask_session env) ''config.ini'' ''DEFECT_ATTRIBUTES'' ''logging_level'' = Inr (lv # lvs)
            \<and> get_level (f_name f) lv = Some level
            \<and> map_of (loggers w1) lg = Some L \<and> lg_level L = level \<and> lg_handlers L \<noteq> []
            \<and> (at_most_one_handler (f_name f) w \<longrightarrow> length (lg_handlers L) = 1))"
  using assms
  apply (simp add: load_base_loggers_config_def Let_def 
      split: sum.splits list.splits option.splits if_splits prod.splits)
  apply (auto simp: map_of_setLevel map_of_getLogger map_of_addHandler at_most_one_handler_def le_Suc_eq split: option.splits)
  done

lemma call_func_eq:
  "f_body f args kwargs (ustate w) = (r, u) \<Longrightarrow>
   call_func f args kwargs w = (r, w\<lparr>trace := trace w @ [CallFunc args kwargs], ustate := u\<rparr>)"
  by (simp add: call_func_def)

lemma logger_log_sink:
  "map_of (loggers w) nm = Some L \<Longrightarrow>
   sink (logger_log lv nm msg w) =
     sink w @ (if lg_level L \<le> lv
               then map (\<lambda>h. \<lparr>l_file = h_filename h, l_levelno = lv, l_name = nm, l_message = msg\<rparr>)
                      (lg_handlers L)
               else [])"
  by (simp add: logger_log_def)

lemma logger_log_frame [simp]:
  "trace (logger_log lv nm msg w) = trace w" "ustate (logger_log lv nm msg w) = ustate w"
  "loggers (logger_log lv nm msg w) = loggers w"
  by (simp_all add: logger_log_def split: option.splits)

lemma single_handler: "length hs = 1 \<Longrightarrow> \<exists>h. hs = [h]"
  by (cases hs) simp_all

text \<open>
  C4 (as amended). When the wrapped function returns normally, \<open>log\<close> returns exactly its
  value and calls it once with the arguments given: without a logger (the level name
  is neither \<open>''INFO''\<close> nor \<open>''ERROR''\<close>) the sink is untouched; with a logger at level
  \<open>''INFO''\<close> one info line is appended; with a logger at level \<open>''ERROR''\<close> the info
  record is below the level of the logger and nothing is written. The logger of the
  function is assumed to carry no handler but the one this module attaches.
\<close>

theorem log_returns_result:
  assumes sess: "session_get (flask_session env) ''config.ini'' ''DEFECT_ATTRIBUTES'' ''logging_level''
                   = Inr (lv # lvs)"
    and cfg: "load_base_loggers_config env f w = (Inr lgo, w1)"
    and one: "at_most_one_handler (f_name f) w"
    and body: "f_body f args kwargs (ustate w1) = (Inr v, u)"
  shows "\<exists>w'. log env f args kwargs w = (Inr v, w')
           \<and> trace w' = trace w1 @ [CallFunc args kwargs]
           \<and> (lgo = None) = (lv \<noteq> ''INFO'' \<and> lv \<noteq> ''ERROR'')
           \<and> (if lv = ''INFO''
               then \<exists>fl. sink w' = sink w @
                      [\<lparr>l_file = fl, l_levelno = logging_INFO, l_name = f_name f,
                        l_message = call_message env f args kwargs (now env u - now env (ustate w)) v\<rparr>]
               else sink w' = sink w)"
proof (cases lgo)
  case None
  with cfg have w1: "w1 = getLogger (f_name f) w"
    and "\<exists>lv' lvs'. session_get (flask_session env) ''config.ini'' ''DEFECT_ATTRIBUTES'' ''logging_level''
            = Inr (lv' # lvs') \<and> get_level (f_name f) lv' = None"
    using lbc_None [of env f w w1] by simp_all
  with sess have off: "get_level (f_name f) lv = None" by auto
  then have lv: "lv \<noteq> ''INFO'' \<and> lv \<noteq> ''ERROR''"
    by (auto simp: get_level_def split: if_splits)
  from cfg None body have "log env f args kwargs w =
      (Inr v, w1\<lparr>trace := trace w1 @ [CallFunc args kwargs], ustate := u\<rparr>)"
    by (simp add: log_def call_func_eq)
  with lv None w1 show ?thesis by simp
next
  case (Some lg)
  with cfg obtain lv' lvs' level L where
    lg: "lg = f_name f" and fr: "sink w1 = sink w" "ustate w1 = ustate w"
    and sess': "session_get (flask_session env) ''config.ini'' ''DEFECT_ATTRIBUTES'' ''logging_level''
            = Inr (lv' # lvs')"
    and lev: "get_level (f_name f) lv' = Some level"
    and L: "map_of (loggers w1) lg = Some L" "lg_level L = level"
    and hs: "at_most_one_handler (f_name f) w \<longrightarrow> length (lg_handlers L) = 1"
    using lbc_Some [of env f w lg w1] by auto
  from sess sess' have "lv' = lv" by simp
  with lev have lv: "(lv = ''INFO'' \<and> level = logging_INFO) \<or> (lv = ''ERROR'' \<and> level = logging_ERROR)"
    by (auto dest: get_level_Some)
  from hs one obtain h where h: "lg_handlers L = [h]"
    using single_handler by blast
  let ?w2 = "w1\<lparr>trace := trace w1 @ [CallFunc args kwargs], ustate := u\<rparr>"
  let ?msg = "call_message env f args kwargs (now env u - now env (ustate w)) v"
  from cfg Some body fr have run: "log env f args kwargs w = (Inr v, logger_info lg ?msg ?w2)"
    by (simp add: log_def call_func_eq Let_def)
  from L have "map_of (loggers ?w2) lg = Some L" by simp
  then have "sink (logger_info lg ?msg ?w2) =
      sink ?w2 @ (if lg_level L \<le> logging_INFO
                  then map (\<lambda>h. \<lparr>l_file = h_filename h, l_levelno = logging_INFO, l_name = lg,
                                   l_message = ?msg\<rparr>) (lg_handlers L)
                  else [])"
    unfolding logger_info_def by (rule logger_log_sink)
  with lv L h fr lg have "if lv = ''INFO''
      then sink (logger_info lg ?msg ?w2) = sink w @
             [\<lparr>l_file = h_filename h, l_levelno = logging_INFO, l_name = f_name f, l_message = ?msg\<rparr>]
      else sink (logger_info lg ?msg ?w2) = sink w"
    by (auto simp: logging_INFO_def logging_ERROR_def)
  moreover have "trace (logger_info lg ?msg ?w2) = trace w1 @ [CallFunc args kwargs]"
    by (simp add: logger_info_def)
  moreover from lv Some have "(lgo = None) = (lv \<noteq> ''INFO'' \<and> lv \<noteq> ''ERROR'')" by auto
  ultimately show ?thesis using run by (auto split: if_splits)
qed

section \<open>The set-up on the concrete session\<close>

lemma sess_demo: "session_get (flask_session (demo_env lv)) ''config.ini'' ''DEFECT_ATTRIBUTES'' ''logging_level'' = Inr [lv]"
  by (simp add: demo_env_def demo_session_def session_get_def)

lemma lbc_demo_info:
  "load_base_loggers_config (demo_env ''INFO'') (demo_func r) demo_world = (Inr (Some ''train''), demo_ready 20)"
  apply (simp add: load_base_loggers_config_def sess_demo)
  apply (simp add: get_level_def demo_func_def)
  apply (simp add: demo_world_def getLogger_def setLevel_def Let_def logging_INFO_def)
  apply (simp add: demo_env_def demo_session_def addHandler_def demo_ready_def demo_handler_def Let_def)
  done

lemma lbc_demo_error:
  "load_base_loggers_config (demo_env ''ERROR'') (demo_func r) demo_world = (Inr (Some ''train''), demo_ready 40)"
  apply (simp add: load_base_loggers_config_def sess_demo)
  apply (simp add: get_level_def demo_func_def)
  apply (simp add: demo_world_def getLogger_def setLevel_def Let_def logging_ERROR_def)
  apply (simp add: demo_env_def demo_session_def addHandler_def demo_ready_def demo_handler_def Let_def)
  done

lemma lbc_demo_off:
  "load_base_loggers_config (demo_env ''DO NOT LOG'') (demo_func r) demo_world =
     (Inr None, demo_world\<lparr>loggers := [(''train'', \<lparr>lg_level = 0, lg_handlers = []\<rparr>)]\<rparr>)"
  apply (simp add: load_base_loggers_config_def sess_demo)
  apply (simp add: get_level_def demo_func_def module_eq_str_def)
  apply (simp add: demo_world_def getLogger_def)
  done

section \<open>The paths of the Training Report Builder\<close>

lemma lbc_calls:
  "load_base_loggers_config env f w = (r, w1) \<Longrightarrow> CallFunc a k \<in> set (trace w1) \<Longrightarrow> CallFunc a k \<in> set (trace w)"
  by (auto simp: load_base_loggers_config_def Let_def
      split: sum.splits list.splits option.splits if_splits prod.splits)

lemma get_prediction_calls:
  "get_prediction env d a p w = (r, w1) \<Longrightarrow> CallFunc x k \<in> set (trace w1) \<Longrightarrow> CallFunc x k \<in> set (trace w)"
  by (auto simp: get_prediction_def Let_def split: pyval.splits sum.splits)

lemma get_prediction_frame:
  "get_prediction env d a p w = (r, w1) \<Longrightarrow> sink w1 = sink w \<and> loggers w1 = loggers w \<and> ustate w1 = ustate w"
  by (auto simp: get_prediction_def Let_def split: pyval.splits sum.splits)

lemma binary_report_calls:
  "binary_report env n vs p tn st w = (r, w1) \<Longrightarrow> CallFunc x k \<in> set (trace w1) \<Longrightarrow> CallFunc x k \<in> set (trace w)"
  by (auto simp: binary_report_def Let_def split: sum.splits)

lemma multiclass_report_calls:
  "multiclass_report env n vs p st w = (r, w1) \<Longrightarrow> CallFunc x k \<in> set (trace w1) \<Longrightarrow> CallFunc x k \<in> set (trace w)"
  by (auto simp: multiclass_report_def Let_def split: sum.splits option.splits)

lemma call_func_calls:
  "call_func f args kwargs w = (r, w1) \<Longrightarrow> CallFunc x k \<in> set (trace w1) \<Longrightarrow>
     CallFunc x k \<in> set (trace w) \<or> (x = args \<and> k = kwargs)"
  by (auto simp: call_func_def split: prod.splits)

lemma log_train_paths [case_names cfg_err off short not_series raised pred_err report]:
  obtains
    (cfg_err) e w1 where
      "load_base_loggers_config env f w = (Inl e, w1)"
      "log_train env f args kwargs w = (Inl e, w1)"
  | (off) w1 r u where
      "load_base_loggers_config env f w = (Inr None, w1)"
      "f_body f args [] (ustate w1) = (r, u)"
      "log_train env f args kwargs w =
         (case r of Inl e \<Rightarrow> Inl e | Inr v \<Rightarrow> Inr NoneV,
          w1\<lparr>trace := trace w1 @ [CallFunc args []], ustate := u\<rparr>)"
  | (short) lg w1 where
      "load_base_loggers_config env f w = (Inr (Some lg), w1)"
      "length args < 2"
      "log_train env f args kwargs w = (Inl IndexError, w1)"
  | (not_series) lg w1 descr areas rest where
      "load_base_loggers_config env f w = (Inr (Some lg), w1)"
      "args = descr # areas # rest" "\<forall>name vals. areas \<noteq> Series name vals"
      "log_train env f args kwargs w = (Inl AttributeError, w1)"
  | (raised) lg w1 descr name vals rest e u where
      "load_base_loggers_config env f w = (Inr (Some lg), w1)"
      "args = descr # Series name vals # rest"
      "f_body f args [] (ustate w1) = (Inl e, u)"
      "log_train env f args kwargs w =
         (Inl e,
          if is_Exception e
          then logger_error lg (format_exc env e) (w1\<lparr>trace := trace w1 @ [CallFunc args []], ustate := u\<rparr>)
          else w1\<lparr>trace := trace w1 @ [CallFunc args []], ustate := u\<rparr>)"
  | (pred_err) lg w1 descr name vals rest v u e w3 where
      "load_base_loggers_config env f w = (Inr (Some lg), w1)"
      "args = descr # Series name vals # rest"
      "f_body f args [] (ustate w1) = (Inr v, u)"
      "get_prediction env descr (Series name vals) (last args)
         (w1\<lparr>trace := trace w1 @ [CallFunc args []], ustate := u\<rparr>) = (Inl e, w3)"
      "log_train env f args kwargs w = (Inl e, w3)"
  | (report) lg w1 descr name vals rest v u prediction w3 rr w4 where
      "load_base_loggers_config env f w = (Inr (Some lg), w1)"
      "args = descr # Series name vals # rest"
      "f_body f args [] (ustate w1) = (Inr v, u)"
      "get_prediction env descr (Series name vals) (last args)
         (w1\<lparr>trace := trace w1 @ [CallFunc args []], ustate := u\<rparr>) = (Inr prediction, w3)"
      "(if set (map str_nat [0..<length (unique vals)]) - set [''0'', ''1''] = {}
        then binary_report env name vals prediction (map str_nat [0..<length (unique vals)])
               (now env (ustate w1)) w3
        else multiclass_report env name vals prediction (now env (ustate w1)) w3) = (rr, w4)"
      "log_train env f args kwargs w =
         (case rr of Inl e \<Rightarrow> (Inl e, w4) | Inr result \<Rightarrow> (Inr NoneV, logger_info lg result w4))"
proof (cases "load_base_loggers_config env f w")
  case (Pair r0 w1)
  show thesis
  proof (cases r0)
    case (Inl e)
    with Pair show thesis using cfg_err by (simp add: log_train_def)
  next
    case (Inr lgo)
    show thesis
    proof (cases lgo)
      case None
      obtain r u where b: "f_body f args [] (ustate w1) = (r, u)"
        by (cases "f_body f args [] (ustate w1)")
      have "log_train env f args kwargs w =
         (case r of Inl e \<Rightarrow> Inl e | Inr v \<Rightarrow> Inr NoneV,
          w1\<lparr>trace := trace w1 @ [CallFunc args []], ustate := u\<rparr>)"
        using Pair Inr None call_func_eq [OF b] by (simp add: log_train_def split: sum.splits)
      with Pair Inr None b show thesis using off by simp
    next
      case (Some lg)
      note cfg = Pair [unfolded Inr Some]
      show thesis
      proof (cases args)
        case Nil
        with cfg show thesis using short by (simp add: log_train_def)
      next
        case (Cons descr args1)
        note a1 = Cons
        show thesis
        proof (cases args1)
          case Nil
          with cfg a1 show thesis using short by (simp add: log_train_def)
        next
          case (Cons areas rest)
          note a2 = a1 [unfolded Cons]
          show thesis
          proof (cases "\<exists>name vals. areas = Series name vals")
            case False
            then have "log_train env f args kwargs w = (Inl AttributeError, w1)"
              using cfg a2 by (cases areas) (simp_all add: log_train_def)
            with cfg a2 False show thesis using not_series by simp
          next
            case True
            then obtain name vals where ar: "areas = Series name vals" by blast
            note a3 = a2 [unfolded ar]
            obtain r u where b: "f_body f args [] (ustate w1) = (r, u)"
              by (cases "f_body f args [] (ustate w1)")
            note cf = call_func_eq [OF b]
            let ?w2 = "w1\<lparr>trace := trace w1 @ [CallFunc args []], ustate := u\<rparr>"
            show thesis
            proof (cases r)
              case (Inl e)
              have "log_train env f args kwargs w =
                  (Inl e, if is_Exception e then logger_error lg (format_exc env e) ?w2 else ?w2)"
                using cfg cf [unfolded a3] Inl unfolding a3 by (simp add: log_train_def)
              with cfg a3 b Inl show thesis using raised by simp
            next
              case (Inr v)
              obtain pr w3 where gp: "get_prediction env descr (Series name vals) (last args) ?w2 = (pr, w3)"
                by (cases "get_prediction env descr (Series name vals) (last args) ?w2")
              show thesis
              proof (cases pr)
                case (Inl e)
                have "log_train env f args kwargs w = (Inl e, w3)"
                  using cfg cf [unfolded a3] Inr gp [unfolded a3] Inl unfolding a3
                  by (simp add: log_train_def)
                with cfg a3 b Inr gp Inl show thesis using pred_err by simp
              next
                case (Inr prediction)
                note p = this
                obtain rr w4 where rep:
                  "(if set (map str_nat [0..<length (unique vals)]) - set [''0'', ''1''] = {}
                    then binary_report env name vals prediction (map str_nat [0..<length (unique vals)])
                           (now env (ustate w1)) w3
                    else multiclass_report env name vals prediction (now env (ustate w1)) w3) = (rr, w4)"
                  by (cases "(if set (map str_nat [0..<length (unique vals)]) - set [''0'', ''1''] = {}
                    then binary_report env name vals prediction (map str_nat [0..<length (unique vals)])
                           (now env (ustate w1)) w3
                    else multiclass_report env name vals prediction (now env (ustate w1)) w3)")
                have "log_train env f args kwargs w =
                   (case rr of Inl e \<Rightarrow> (Inl e, w4) | Inr result \<Rightarrow> (Inr NoneV, logger_info lg result w4))"
                  using cfg cf [unfolded a3] \<open>r = Inr v\<close> gp [unfolded a3] p rep unfolding a3
                  by (simp add: log_train_def Let_def split: sum.splits)
                with cfg a3 b \<open>r = Inr v\<close> gp p rep show thesis using report by simp
              qed
            qed
          qed
        qed
      qed
    qed
  qed
qed

section \<open>Properties of the decorators\<close>

text \<open>
  C6. Whenever a call through \<open>log_train\<close> returns, it returns \<^verbatim>\<open>None\<close>. It does
  return \<^verbatim>\<open>None\<close> on the path without a logger and on the path where the report was
  built, whatever value the wrapped function returned.
\<close>

theorem log_train_returns_None:
  "(fst (log_train env f args kwargs w) = Inr r \<longrightarrow> r = NoneV)
   \<and> (load_base_loggers_config env f w = (Inr None, w1) \<longrightarrow> f_body f args [] (ustate w1) = (Inr v, u)
        \<longrightarrow> fst (log_train env f args kwargs w) = Inr NoneV)
   \<and> (load_base_loggers_config env f w = (Inr (Some lg), w1)
        \<longrightarrow> f_body f (descr # Series name vals # rest) [] (ustate w1) = (Inr v, u)
        \<longrightarrow> get_prediction env descr (Series name vals) (last (descr # Series name vals # rest))
              (w1\<lparr>trace := trace w1 @ [CallFunc (descr # Series name vals # rest) []], ustate := u\<rparr>)
            = (Inr prediction, w3)
        \<longrightarrow> (if set (map str_nat [0..<length (unique vals)]) - set [''0'', ''1''] = {}
             then binary_report env name vals prediction (map str_nat [0..<length (unique vals)])
                    (now env (ustate w1)) w3
             else multiclass_report env name vals prediction (now env (ustate w1)) w3) = (Inr result, w4)
        \<longrightarrow> fst (log_train env f (descr # Series name vals # rest) kwargs w) = Inr NoneV)"
proof (intro conjI)
  show "fst (log_train env f args kwargs w) = Inr r \<longrightarrow> r = NoneV"
    by (cases rule: log_train_paths [of env f w args kwargs]) (auto split: sum.splits)
next
  show "load_base_loggers_config env f w = (Inr None, w1) \<longrightarrow> f_body f args [] (ustate w1) = (Inr v, u)
        \<longrightarrow> fst (log_train env f args kwargs w) = Inr NoneV"
    by (simp add: log_train_def call_func_eq)
next
  show "load_base_loggers_config env f w = (Inr (Some lg), w1)
        \<longrightarrow> f_body f (descr # Series name vals # rest) [] (ustate w1) = (Inr v, u)
        \<longrightarrow> get_prediction env descr (Series name vals) (last (descr # Series name vals # rest))
              (w1\<lparr>trace := trace w1 @ [CallFunc (descr # Series name vals # rest) []], ustate := u\<rparr>)
            = (Inr prediction, w3)
        \<longrightarrow> (if set (map str_nat [0..<length (unique vals)]) - set [''0'', ''1''] = {}
             then binary_report env name vals prediction (map str_nat [0..<length (unique vals)])
                    (now env (ustate w1)) w3
             else multiclass_report env name vals prediction (now env (ustate w1)) w3) = (Inr result, w4)
        \<longrightarrow> fst (log_train env f (descr # Series name vals # rest) kwargs w) = Inr NoneV"
  proof (intro impI)
    assume cfg: "load_base_loggers_config env f w = (Inr (Some lg), w1)"
      and body: "f_body f (descr # Series name vals # rest) [] (ustate w1) = (Inr v, u)"
      and gp: "get_prediction env descr (Series name vals) (last (descr # Series name vals # rest))
              (w1\<lparr>trace := trace w1 @ [CallFunc (descr # Series name vals # rest) []], ustate := u\<rparr>)
            = (Inr prediction, w3)"
      and rep: "(if set (map str_nat [0..<length (unique vals)]) - set [''0'', ''1''] = {}
             then binary_report env name vals prediction (map str_nat [0..<length (unique vals)])
                    (now env (ustate w1)) w3
             else multiclass_report env name vals prediction (now env (ustate w1)) w3) = (Inr result, w4)"
    from rep show "fst (log_train env f (descr # Series name vals # rest) kwargs w) = Inr NoneV"
      using cfg call_func_eq [OF body] gp by (simp add: log_train_def Let_def)
  qed
qed

text \<open>
  C7. When the level resolver answers \<open>None\<close>, \<open>log_train\<close> calls the wrapped function
  with the positional arguments and no keyword argument, and that is the only
  outside call; the sink is unchanged and the registry gains at most the logger of
  the function, with no handler.
\<close>

theorem log_train_disabled:
  assumes sess: "session_get (flask_session env) ''config.ini'' ''DEFECT_ATTRIBUTES'' ''logging_level''
                   = Inr (lv # lvs)"
    and off: "get_level (f_name f) lv = None"
    and body: "f_body f args [] (ustate w) = (r, u)"
  shows "\<exists>w'. log_train env f args kwargs w = (case r of Inl e \<Rightarrow> Inl e | Inr v \<Rightarrow> Inr NoneV, w')
           \<and> trace w' = trace w @ [CallFunc args []]
           \<and> sink w' = sink w
           \<and> ustate w' = u
           \<and> loggers w' =
               (case map_of (loggers w) (f_name f) of
                  Some lg \<Rightarrow> loggers w
                | None \<Rightarrow> loggers w @ [(f_name f, \<lparr>lg_level = 0, lg_handlers = []\<rparr>)])"
proof -
  have cfg: "load_base_loggers_config env f w = (Inr None, getLogger (f_name f) w)"
    using sess off by (rule lbc_disabled)
  have "f_body f args [] (ustate (getLogger (f_name f) w)) = (r, u)"
    using body by simp
  then have call: "call_func f args [] (getLogger (f_name f) w) =
      (r, (getLogger (f_name f) w)\<lparr>trace := trace (getLogger (f_name f) w) @ [CallFunc args []], ustate := u\<rparr>)"
    by (rule call_func_eq)
  have run: "log_train env f args kwargs w =
      (case r of Inl e \<Rightarrow> Inl e | Inr v \<Rightarrow> Inr NoneV,
       (getLogger (f_name f) w)\<lparr>trace := trace w @ [CallFunc args []], ustate := u\<rparr>)"
    by (simp add: log_train_def cfg call split: sum.splits)
  have "loggers (getLogger (f_name f) w) =
      (case map_of (loggers w) (f_name f) of
         Some lg \<Rightarrow> loggers w
       | None \<Rightarrow> loggers w @ [(f_name f, \<lparr>lg_level = 0, lg_handlers = []\<rparr>)])"
    by (simp add: getLogger_def split: option.splits)
  with run show ?thesis by simp
qed

lemma report_branch_calls:
  assumes "(if b then binary_report env n vs p tn st w else multiclass_report env n vs p st w) = (r, w1)"
    and "CallFunc x k \<in> set (trace w1)"
  shows "CallFunc x k \<in> set (trace w)"
  using assms by (auto split: if_splits dest: binary_report_calls multiclass_report_calls)

lemma get_prediction_tail:
  assumes "get_prediction env d a p w = (r, w1)"
  shows "ustate w1 = ustate w \<and> (\<exists>tl. trace w1 = trace w @ tl \<and> (\<forall>x k. CallFunc x k \<notin> set tl))"
proof (cases p)
  case (Str path)
  show ?thesis
  proof (cases "pickle_load env (path @ ''.sav'') (ustate w)")
    case (Inl e)
    with assms Str have "w1 = w\<lparr>trace := trace w @ [LoadModel (path @ ''.sav'')]\<rparr>"
      by (simp add: get_prediction_def Let_def)
    then have "ustate w1 = ustate w" and "trace w1 = trace w @ [LoadModel (path @ ''.sav'')]"
      by simp_all
    then show ?thesis by auto
  next
    case (Inr model)
    with assms Str have "w1 = w\<lparr>trace := trace w @ [LoadModel (path @ ''.sav''), CrossValPredict d a 10 4]\<rparr>"
      by (simp add: get_prediction_def Let_def split: sum.splits)
    then have "ustate w1 = ustate w"
      and "trace w1 = trace w @ [LoadModel (path @ ''.sav''), CrossValPredict d a 10 4]"
      by simp_all
    then show ?thesis by auto
  qed
next
  case (Series n vs)
  with assms have "w1 = w" by (simp add: get_prediction_def)
  then show ?thesis by simp
next
  case NoneV
  with assms have "w1 = w" by (simp add: get_prediction_def)
  then show ?thesis by simp
next
  case (Obj n)
  with assms have "w1 = w" by (simp add: get_prediction_def)
  then show ?thesis by simp
qed

lemma binary_report_tail:
  assumes "binary_report env n vs p tn st w = (r, w1)"
  shows "ustate w1 = ustate w \<and> (\<exists>tl. trace w1 = trace w @ tl \<and> (\<forall>x k. CallFunc x k \<notin> set tl))"
proof -
  from assms have "ustate w1 = ustate w"
    by (auto simp: binary_report_def Let_def split: sum.splits)
  moreover from assms have
    "trace w1 = trace w @ [ClassificationReport vs p tn]
     \<or> trace w1 = trace w @ [ClassificationReport vs p tn, AccuracyScore vs p]
     \<or> trace w1 = trace w @ [ClassificationReport vs p tn, AccuracyScore vs p, RocAucScore vs p]
     \<or> trace w1 = trace w @ [ClassificationReport vs p tn, AccuracyScore vs p, RocAucScore vs p,
                               MatthewsCorrcoef vs p]"
    by (auto simp: binary_report_def Let_def split: sum.splits)
  ultimately show ?thesis by auto
qed

lemma multiclass_report_tail:
  assumes "multiclass_report env n vs p st w = (r, w1)"
  shows "ustate w1 = ustate w \<and> (\<exists>tl. trace w1 = trace w @ tl \<and> (\<forall>x k. CallFunc x k \<notin> set tl))"
proof -
  from assms have "ustate w1 = ustate w"
    by (auto simp: multiclass_report_def Let_def split: sum.splits option.splits)
  moreover from assms have
    "trace w1 = trace w \<or> (\<exists>y tn. trace w1 = trace w @ [ClassificationReport y p tn])"
    by (auto simp: multiclass_report_def Let_def split: sum.splits option.splits)
  ultimately show ?thesis by auto
qed

lemma report_branch_tail:
  assumes "(if b then binary_report env n vs p tn st w else multiclass_report env n vs p st w) = (r, w1)"
  shows "ustate w1 = ustate w \<and> (\<exists>tl. trace w1 = trace w @ tl \<and> (\<forall>x k. CallFunc x k \<notin> set tl))"
  using assms binary_report_tail [of env n vs p tn st w r w1] multiclass_report_tail [of env n vs p st w r w1]
  by (cases b) simp_all

text \<open>
  C10. The result of \<open>log_train\<close> does not depend on the keyword arguments, and every
  call of the wrapped function it makes has the positional arguments and no keyword
  argument. On both paths the call is made: without a logger the outside calls after
  the set-up are exactly the call of the wrapped function with the positional
  arguments and no keyword argument; with a logger (and a series as second argument)
  they begin with that call and hold no other call of the function. On both paths
  the state and a raised exception are those of the body run with the positional
  arguments and no keyword argument.
\<close>

theorem log_train_ignores_kwargs:
  "log_train env f args kwargs w = log_train env f args [] w
   \<and> (\<forall>a k. CallFunc a k \<in> set (trace (snd (log_train env f args kwargs w)))
         \<longrightarrow> CallFunc a k \<in> set (trace w) \<or> (a = args \<and> k = []))
   \<and> (load_base_loggers_config env f w = (Inr None, w1)
        \<longrightarrow> trace (snd (log_train env f args kwargs w)) = trace w1 @ [CallFunc args []]
            \<and> ustate (snd (log_train env f args kwargs w)) = snd (f_body f args [] (ustate w1))
            \<and> fst (log_train env f args kwargs w) =
                (case fst (f_body f args [] (ustate w1)) of Inl e \<Rightarrow> Inl e | Inr v \<Rightarrow> Inr NoneV))
   \<and> (load_base_loggers_config env f w = (Inr (Some lg), w1) \<longrightarrow> args = descr # Series name vals # rest
        \<longrightarrow> (\<exists>tl. trace (snd (log_train env f args kwargs w)) = trace w1 @ CallFunc args [] # tl
                  \<and> (\<forall>a k. CallFunc a k \<notin> set tl))
            \<and> ustate (snd (log_train env f args kwargs w)) = snd (f_body f args [] (ustate w1))
            \<and> (\<forall>e. fst (f_body f args [] (ustate w1)) = Inl e
                  \<longrightarrow> fst (log_train env f args kwargs w) = Inl e))"
proof (intro conjI)
  show "log_train env f args kwargs w = log_train env f args [] w"
    by (simp add: log_train_def)
next
  show "\<forall>a k. CallFunc a k \<in> set (trace (snd (log_train env f args kwargs w)))
         \<longrightarrow> CallFunc a k \<in> set (trace w) \<or> (a = args \<and> k = [])"
  proof (intro allI impI)
    fix a k
    assume ev: "CallFunc a k \<in> set (trace (snd (log_train env f args kwargs w)))"
    show "CallFunc a k \<in> set (trace w) \<or> (a = args \<and> k = [])"
    proof (cases rule: log_train_paths [of env f w args kwargs])
      case (cfg_err e w1)
      with ev show ?thesis by (auto dest: lbc_calls)
    next
      case (off w1 r u)
      with ev show ?thesis by (auto dest: lbc_calls)
    next
      case (short lg w1)
      with ev show ?thesis by (auto dest: lbc_calls)
    next
      case (not_series lg w1 descr areas rest)
      with ev show ?thesis by (auto dest: lbc_calls)
    next
      case (raised lg w1 descr name vals rest e u)
      with ev show ?thesis
        by (auto simp: logger_error_def dest: lbc_calls split: if_splits)
    next
      case (pred_err lg w1 descr name vals rest v u e w3)
      from ev pred_err(5) have "CallFunc a k \<in> set (trace w3)" by simp
      with pred_err(4) have "CallFunc a k \<in> set (trace (w1\<lparr>trace := trace w1 @ [CallFunc args []], ustate := u\<rparr>))"
        by (rule get_prediction_calls)
      with pred_err(1) show ?thesis by (auto dest: lbc_calls)
    next
      case (report lg w1 descr name vals rest v u prediction w3 rr w4)
      from ev report(6) have "CallFunc a k \<in> set (trace w4)"
        by (cases rr) (simp_all add: logger_info_def)
      with report(5) have "CallFunc a k \<in> set (trace w3)" by (rule report_branch_calls)
      with report(4) have "CallFunc a k \<in> set (trace (w1\<lparr>trace := trace w1 @ [CallFunc args []], ustate := u\<rparr>))"
        by (rule get_prediction_calls)
      with report(1) show ?thesis by (auto dest: lbc_calls)
    qed
  qed
next
  show "load_base_loggers_config env f w = (Inr None, w1)
        \<longrightarrow> trace (snd (log_train env f args kwargs w)) = trace w1 @ [CallFunc args []]
            \<and> ustate (snd (log_train env f args kwargs w)) = snd (f_body f args [] (ustate w1))
            \<and> fst (log_train env f args kwargs w) =
                (case fst (f_body f args [] (ustate w1)) of Inl e \<Rightarrow> Inl e | Inr v \<Rightarrow> Inr NoneV)"
  proof
    assume cfg: "load_base_loggers_config env f w = (Inr None, w1)"
    obtain r u where b: "f_body f args [] (ustate w1) = (r, u)"
      by (cases "f_body f args [] (ustate w1)")
    have "log_train env f args kwargs w =
        (case r of Inl e \<Rightarrow> Inl e | Inr v \<Rightarrow> Inr NoneV,
         w1\<lparr>trace := trace w1 @ [CallFunc args []], ustate := u\<rparr>)"
      using cfg call_func_eq [OF b] by (simp add: log_train_def split: sum.splits)
    with b show "trace (snd (log_train env f args kwargs w)) = trace w1 @ [CallFunc args []]
            \<and> ustate (snd (log_train env f args kwargs w)) = snd (f_body f args [] (ustate w1))
            \<and> fst (log_train env f args kwargs w) =
                (case fst (f_body f args [] (ustate w1)) of Inl e \<Rightarrow> Inl e | Inr v \<Rightarrow> Inr NoneV)"
      by simp
  qed
next
  show "load_base_loggers_config env f w = (Inr (Some lg), w1) \<longrightarrow> args = descr # Series name vals # rest
        \<longrightarrow> (\<exists>tl. trace (snd (log_train env f args kwargs w)) = trace w1 @ CallFunc args [] # tl
                  \<and> (\<forall>a k. CallFunc a k \<notin> set tl))
            \<and> ustate (snd (log_train env f args kwargs w)) = snd (f_body f args [] (ustate w1))
            \<and> (\<forall>e. fst (f_body f args [] (ustate w1)) = Inl e
                  \<longrightarrow> fst (log_train env f args kwargs w) = Inl e)"
  proof (intro impI)
    assume cfg: "load_base_loggers_config env f w = (Inr (Some lg), w1)"
      and ar: "args = descr # Series name vals # rest"
    obtain r u where b: "f_body f args [] (ustate w1) = (r, u)"
      by (cases "f_body f args [] (ustate w1)")
    note cf = call_func_eq [OF b]
    let ?w2 = "w1\<lparr>trace := trace w1 @ [CallFunc args []], ustate := u\<rparr>"
    have goal: "(\<exists>tl. trace (snd (log_train env f args kwargs w)) = trace w1 @ CallFunc args [] # tl
                  \<and> (\<forall>a k. CallFunc a k \<notin> set tl))
            \<and> ustate (snd (log_train env f args kwargs w)) = u
            \<and> (\<forall>e. r = Inl e \<longrightarrow> fst (log_train env f args kwargs w) = Inl e)"
    proof (cases r)
      case (Inl e)
      have "log_train env f args kwargs w =
          (Inl e, if is_Exception e then logger_error lg (format_exc env e) ?w2 else ?w2)"
        using cfg cf [unfolded ar] Inl unfolding ar by (simp add: log_train_def)
      then have "trace (snd (log_train env f args kwargs w)) = trace w1 @ CallFunc args [] # []"
        and "ustate (snd (log_train env f args kwargs w)) = u"
        and "fst (log_train env f args kwargs w) = Inl e"
        by (simp_all add: logger_error_def)
      with Inl show ?thesis by auto
    next
      case (Inr v)
      obtain pr w3 where gp: "get_prediction env descr (Series name vals) (last args) ?w2 = (pr, w3)"
        by (cases "get_prediction env descr (Series name vals) (last args) ?w2")
      from get_prediction_tail [OF gp] obtain tl3 where
        u3: "ustate w3 = u" and t3: "trace w3 = trace w1 @ CallFunc args [] # tl3"
        and n3: "\<forall>a k. CallFunc a k \<notin> set tl3"
        by auto
      show ?thesis
      proof (cases pr)
        case (Inl e)
        have "log_train env f args kwargs w = (Inl e, w3)"
          using cfg cf [unfolded ar] Inr gp [unfolded ar] Inl unfolding ar
          by (simp add: log_train_def)
        with u3 t3 n3 Inr show ?thesis by auto
      next
        case Inr': (Inr prediction)
        obtain rr w4 where rep:
          "(if set (map str_nat [0..<length (unique vals)]) - set [''0'', ''1''] = {}
            then binary_report env name vals prediction (map str_nat [0..<length (unique vals)])
                   (now env (ustate w1)) w3
            else multiclass_report env name vals prediction (now env (ustate w1)) w3) = (rr, w4)"
          by (cases "(if set (map str_nat [0..<length (unique vals)]) - set [''0'', ''1''] = {}
            then binary_report env name vals prediction (map str_nat [0..<length (unique vals)])
                   (now env (ustate w1)) w3
            else multiclass_report env name vals prediction (now env (ustate w1)) w3)")
        from report_branch_tail [OF rep] obtain tl4 where
          u4: "ustate w4 = ustate w3" and t4: "trace w4 = trace w3 @ tl4"
          and n4: "\<forall>a k. CallFunc a k \<notin> set tl4"
          by auto
        have run: "log_train env f args kwargs w =
           (case rr of Inl e \<Rightarrow> (Inl e, w4) | Inr result \<Rightarrow> (Inr NoneV, logger_info lg result w4))"
          using cfg cf [unfolded ar] Inr gp [unfolded ar] Inr' rep unfolding ar
          by (simp add: log_train_def Let_def split: sum.splits)
        have "trace (snd (log_train env f args kwargs w)) = trace w4"
          and "ustate (snd (log_train env f args kwargs w)) = ustate w4"
          unfolding run by (cases rr; simp add: logger_info_def)+
        with u3 t3 n3 u4 t4 n4 have
          "trace (snd (log_train env f args kwargs w)) = trace w1 @ CallFunc args [] # (tl3 @ tl4)"
          and "\<forall>a k. CallFunc a k \<notin> set (tl3 @ tl4)"
          and "ustate (snd (log_train env f args kwargs w)) = u"
          by simp_all
        with Inr show ?thesis by blast
      qed
    qed
    with b show "(\<exists>tl. trace (snd (log_train env f args kwargs w)) = trace w1 @ CallFunc args [] # tl
                  \<and> (\<forall>a k. CallFunc a k \<notin> set tl))
            \<and> ustate (snd (log_train env f args kwargs w)) = snd (f_body f args [] (ustate w1))
            \<and> (\<forall>e. fst (f_body f args [] (ustate w1)) = Inl e
                  \<longrightarrow> fst (log_train env f args kwargs w) = Inl e)"
      by simp
  qed
qed

text \<open>
  C5 (as amended). With a logger, when the wrapped function raises \<open>e\<close>, both decorators
  raise \<open>e\<close> again after the single call of the function; when \<open>e\<close> is an instance of
  \<^verbatim>\<open>Exception\<close> exactly one line of error severity, holding the failure trace, is
  appended to the sink, otherwise nothing is written. In \<open>log_train\<close> the trace of
  outside calls ends with the call of the function: no model is loaded, no
  prediction and no report computed.
\<close>

theorem raise_logged_and_reraised:
  assumes cfg: "load_base_loggers_config env f w = (Inr (Some lg), w1)"
    and one: "at_most_one_handler (f_name f) w"
  shows "(f_body f args kwargs (ustate w1) = (Inl e, u) \<longrightarrow>
            (\<exists>w'. log env f args kwargs w = (Inl e, w')
               \<and> trace w' = trace w1 @ [CallFunc args kwargs]
               \<and> (if is_Exception e
                   then \<exists>fl. sink w' = sink w @
                          [\<lparr>l_file = fl, l_levelno = logging_ERROR, l_name = f_name f,
                            l_message = format_exc env e\<rparr>]
                   else sink w' = sink w)))
       \<and> (f_body f (descr # Series name vals # rest) [] (ustate w1) = (Inl e, u) \<longrightarrow>
            (\<exists>w'. log_train env f (descr # Series name vals # rest) kwargs w = (Inl e, w')
               \<and> trace w' = trace w1 @ [CallFunc (descr # Series name vals # rest) []]
               \<and> (if is_Exception e
                   then \<exists>fl. sink w' = sink w @
                          [\<lparr>l_file = fl, l_levelno = logging_ERROR, l_name = f_name f,
                            l_message = format_exc env e\<rparr>]
                   else sink w' = sink w)))"
proof -
  from cfg obtain lv lvs level L where
    lg: "lg = f_name f" and fr: "sink w1 = sink w" "ustate w1 = ustate w"
    and lev: "get_level (f_name f) lv = Some level"
    and L: "map_of (loggers w1) lg = Some L" "lg_level L = level"
    and hs: "at_most_one_handler (f_name f) w \<longrightarrow> length (lg_handlers L) = 1"
    using lbc_Some [of env f w lg w1] by auto
  from lev have le: "level \<le> logging_ERROR"
    by (auto dest: get_level_Some simp: logging_INFO_def logging_ERROR_def)
  from hs one obtain h where h: "lg_handlers L = [h]"
    using single_handler by blast
  have err: "\<And>a k. sink (logger_error lg (format_exc env e) (w1\<lparr>trace := trace w1 @ [CallFunc a k], ustate := u\<rparr>))
      = sink w @ [\<lparr>l_file = h_filename h, l_levelno = logging_ERROR, l_name = f_name f,
                    l_message = format_exc env e\<rparr>]"
  proof -
    fix a k
    let ?w2 = "w1\<lparr>trace := trace w1 @ [CallFunc a k], ustate := u\<rparr>"
    from L have "map_of (loggers ?w2) lg = Some L" by simp
    then have "sink (logger_log logging_ERROR lg (format_exc env e) ?w2) =
      sink ?w2 @ (if lg_level L \<le> logging_ERROR
                  then map (\<lambda>h. \<lparr>l_file = h_filename h, l_levelno = logging_ERROR, l_name = lg,
                                   l_message = format_exc env e\<rparr>) (lg_handlers L)
                  else [])"
      by (rule logger_log_sink)
    with le L h fr lg show "sink (logger_error lg (format_exc env e) ?w2)
      = sink w @ [\<lparr>l_file = h_filename h, l_levelno = logging_ERROR, l_name = f_name f,
                    l_message = format_exc env e\<rparr>]"
      by (simp add: logger_error_def)
  qed
  have trc: "\<And>a k. trace (logger_error lg (format_exc env e) (w1\<lparr>trace := trace w1 @ [CallFunc a k], ustate := u\<rparr>))
      = trace w1 @ [CallFunc a k]"
    by (simp add: logger_error_def)
  show ?thesis
  proof (intro conjI impI)
    assume b: "f_body f args kwargs (ustate w1) = (Inl e, u)"
    have "log env f args kwargs w =
        (Inl e, if is_Exception e
                then logger_error lg (format_exc env e) (w1\<lparr>trace := trace w1 @ [CallFunc args kwargs], ustate := u\<rparr>)
                else w1\<lparr>trace := trace w1 @ [CallFunc args kwargs], ustate := u\<rparr>)"
      using cfg call_func_eq [OF b] by (simp add: log_def Let_def)
    then show "\<exists>w'. log env f args kwargs w = (Inl e, w')
               \<and> trace w' = trace w1 @ [CallFunc args kwargs]
               \<and> (if is_Exception e
                   then \<exists>fl. sink w' = sink w @
                          [\<lparr>l_file = fl, l_levelno = logging_ERROR, l_name = f_name f,
                            l_message = format_exc env e\<rparr>]
                   else sink w' = sink w)"
      using err [of args kwargs] trc [of args kwargs] fr by (cases "is_Exception e") simp_all
  next
    let ?args = "descr # Series name vals # rest"
    assume b: "f_body f ?args [] (ustate w1) = (Inl e, u)"
    have "log_train env f ?args kwargs w =
        (Inl e, if is_Exception e
                then logger_error lg (format_exc env e) (w1\<lparr>trace := trace w1 @ [CallFunc ?args []], ustate := u\<rparr>)
                else w1\<lparr>trace := trace w1 @ [CallFunc ?args []], ustate := u\<rparr>)"
      using cfg call_func_eq [OF b] by (simp add: log_train_def Let_def)
    then show "\<exists>w'. log_train env f ?args kwargs w = (Inl e, w')
               \<and> trace w' = trace w1 @ [CallFunc ?args []]
               \<and> (if is_Exception e
                   then \<exists>fl. sink w' = sink w @
                          [\<lparr>l_file = fl, l_levelno = logging_ERROR, l_name = f_name f,
                            l_message = format_exc env e\<rparr>]
                   else sink w' = sink w)"
      using err [of ?args "[]"] trc [of ?args "[]"] fr by (cases "is_Exception e") simp_all
  qed
qed

section \<open>Target names, sorting and the area name\<close>

lemma str_nat_nonempty: "str_nat n \<noteq> []"
  by (subst str_nat.simps) simp

lemma digit_eq_all:
  "\<forall>d \<in> set [0..<10]. (digit d = CHR ''0'' \<longleftrightarrow> d = 0) \<and> (digit d = CHR ''1'' \<longleftrightarrow> d = 1)"
  by (simp add: upt_rec digit_def)

lemma digit_eq_0: "d < 10 \<Longrightarrow> digit d = CHR ''0'' \<longleftrightarrow> d = 0"
  using digit_eq_all by simp

lemma digit_eq_1: "d < 10 \<Longrightarrow> digit d = CHR ''1'' \<longleftrightarrow> d = 1"
  using digit_eq_all by simp

lemma str_nat_binary: "str_nat n \<in> set [''0'', ''1''] \<longleftrightarrow> n < 2"
proof (cases "n < 10")
  case True
  then have "str_nat n = [digit n]" by (subst str_nat.simps) simp
  with True show ?thesis by (auto simp: digit_eq_0 digit_eq_1)
next
  case False
  then have "str_nat n = str_nat (n div 10) @ [digit (n mod 10)]" by (subst str_nat.simps) simp
  moreover have "str_nat (n div 10) \<noteq> []" by (rule str_nat_nonempty)
  ultimately have "length (str_nat n) \<ge> 2" by (cases "str_nat (n div 10)") simp_all
  with False show ?thesis by auto
qed

lemma length_unique: "length (unique xs) = card (set xs)"
  by (simp add: unique_def length_remdups_card_conv)

lemma target_names_binary:
  "set (map str_nat [0..<n]) - set [''0'', ''1''] = {} \<longleftrightarrow> n \<le> 2"
proof
  assume a: "set (map str_nat [0..<n]) - set [''0'', ''1''] = {}"
  show "n \<le> 2"
  proof (rule ccontr)
    assume "\<not> n \<le> 2"
    then have "str_nat 2 \<in> set (map str_nat [0..<n])" by simp
    with a have "str_nat 2 \<in> set [''0'', ''1'']" by blast
    then show False using str_nat_binary [of 2] by simp
  qed
next
  assume "n \<le> 2"
  then have "\<forall>k \<in> set [0..<n]. str_nat k \<in> set [''0'', ''1'']"
    using str_nat_binary by auto
  then show "set (map str_nat [0..<n]) - set [''0'', ''1''] = {}" by auto
qed

lemma log_train_run:
  assumes cfg: "load_base_loggers_config env f w = (Inr (Some lg), w1)"
    and body: "f_body f (descr # Series name vals # rest) [] (ustate w1) = (Inr v, u)"
    and gp: "get_prediction env descr (Series name vals) (last (descr # Series name vals # rest))
               (w1\<lparr>trace := trace w1 @ [CallFunc (descr # Series name vals # rest) []], ustate := u\<rparr>)
             = (Inr prediction, w3)"
  shows "log_train env f (descr # Series name vals # rest) kwargs w =
     (case (if set (map str_nat [0..<length (unique vals)]) - set [''0'', ''1''] = {}
            then binary_report env name vals prediction (map str_nat [0..<length (unique vals)])
                   (now env (ustate w1)) w3
            else multiclass_report env name vals prediction (now env (ustate w1)) w3) of
        (Inl e, w4) \<Rightarrow> (Inl e, w4)
      | (Inr result, w4) \<Rightarrow> (Inr NoneV, logger_info lg result w4))"
  using cfg call_func_eq [OF body] gp by (simp add: log_train_def Let_def)

text \<open>
  C1 (as amended). After the set-up, the call of the wrapped function and the
  prediction have succeeded, \<open>log_train\<close> continues with the binary report exactly
  when the area series has at most two distinct labels, and with the multi-class
  report otherwise.
\<close>

theorem binary_branch_condition:
  assumes cfg: "load_base_loggers_config env f w = (Inr (Some lg), w1)"
    and body: "f_body f (descr # Series name vals # rest) [] (ustate w1) = (Inr v, u)"
    and gp: "get_prediction env descr (Series name vals) (last (descr # Series name vals # rest))
               (w1\<lparr>trace := trace w1 @ [CallFunc (descr # Series name vals # rest) []], ustate := u\<rparr>)
             = (Inr prediction, w3)"
  shows "log_train env f (descr # Series name vals # rest) kwargs w =
     (case (if card (set vals) \<le> 2
            then binary_report env name vals prediction (map str_nat [0..<card (set vals)])
                   (now env (ustate w1)) w3
            else multiclass_report env name vals prediction (now env (ustate w1)) w3) of
        (Inl e, w4) \<Rightarrow> (Inl e, w4)
      | (Inr result, w4) \<Rightarrow> (Inr NoneV, logger_info lg result w4))"
  unfolding log_train_run [OF cfg body gp] target_names_binary length_unique ..

lemma nums_Some: "nums xs = Some ns \<Longrightarrow> xs = map Num ns"
  by (induction xs arbitrary: ns rule: nums.induct) auto

lemma txts_Some: "txts xs = Some ts \<Longrightarrow> xs = map Txt ts"
  by (induction xs arbitrary: ts rule: txts.induct) auto

lemma py_sorted_perm_sorted:
  assumes "py_sorted xs = Inr ys"
  shows "mset ys = mset xs \<and> sorted_wrt cell_le ys"
proof (cases "nums xs")
  case (Some ns)
  with assms have ys: "ys = map Num (sort ns)" by (simp add: py_sorted_def)
  from Some have xs: "xs = map Num ns" by (rule nums_Some)
  have "sorted_wrt cell_le (map Num (sort ns))"
    using sorted_sort [of ns] by (simp add: sorted_wrt_map)
  with ys xs show ?thesis by simp
next
  case None
  show ?thesis
  proof (cases "txts xs")
    case (Some ts)
    with None assms have ys: "ys = map Txt (sort ts)" by (simp add: py_sorted_def)
    from Some have xs: "xs = map Txt ts" by (rule txts_Some)
    have "sorted_wrt cell_le (map Txt (sort ts))"
      using sorted_sort [of ts] by (simp add: sorted_wrt_map)
    with ys xs show ?thesis by simp
  next
    case None': None
    with None assms show ?thesis by (simp add: py_sorted_def)
  qed
qed

lemma multiclass_report_eq:
  assumes "py_sorted vals = Inr y_true"
  shows "multiclass_report env (Some s) vals prediction start w =
     (case session_get (flask_session env) ''predictions_parameters.ini'' ''predictions_parameters''
             (areas_name_of s @ ''_classes'') of
        Inl e \<Rightarrow> (Inl e, w)
      | Inr target_names \<Rightarrow>
          (case classification_report env y_true prediction target_names of
             Inl e \<Rightarrow> Inl e
           | Inr rep \<Rightarrow>
               Inr (report_text (str_timedelta env (now env (ustate w) - start)) (areas_name_of s) rep),
           w\<lparr>trace := trace w @ [ClassificationReport y_true prediction target_names]\<rparr>))"
  using assms by (simp add: multiclass_report_def Let_def split: sum.splits)

lemma get_prediction_eq:
  assumes "pickle_load env (p @ ''.sav'') (ustate w) = Inr model"
    and "cross_val_predict env model descr areas 10 4 = Inr prediction"
  shows "get_prediction env descr areas (Str p) w =
     (Inr prediction, w\<lparr>trace := trace w @ [LoadModel (p @ ''.sav''), CrossValPredict descr areas 10 4]\<rparr>)"
  using assms by (simp add: get_prediction_def Let_def)

text \<open>
  C2. With more than two distinct labels, the outside calls of a successful run end
  with the classification report on the true labels sorted in ascending order (a
  sorted permutation of the labels) and on the prediction exactly as
  \<^verbatim>\<open>cross_val_predict\<close> returned it.
\<close>

theorem multiclass_sorted_true_labels:
  assumes cfg: "load_base_loggers_config env f w = (Inr (Some lg), w1)"
    and body: "f_body f (descr # Series (Some s) vals # rest) [] (ustate w1) = (Inr v, u)"
    and path: "last (descr # Series (Some s) vals # rest) = Str p"
    and model: "pickle_load env (p @ ''.sav'') u = Inr model"
    and cvp: "cross_val_predict env model descr (Series (Some s) vals) 10 4 = Inr prediction"
    and many: "2 < card (set vals)"
    and srt: "py_sorted vals = Inr y_true"
    and names: "session_get (flask_session env) ''predictions_parameters.ini'' ''predictions_parameters''
                  (areas_name_of s @ ''_classes'') = Inr target_names"
  shows "trace (snd (log_train env f (descr # Series (Some s) vals # rest) kwargs w)) =
           trace w1 @ [CallFunc (descr # Series (Some s) vals # rest) [], LoadModel (p @ ''.sav''),
                       CrossValPredict descr (Series (Some s) vals) 10 4,
                       ClassificationReport y_true prediction target_names]
         \<and> mset y_true = mset vals \<and> sorted_wrt cell_le y_true"
proof -
  let ?args = "descr # Series (Some s) vals # rest"
  let ?w2 = "w1\<lparr>trace := trace w1 @ [CallFunc ?args []], ustate := u\<rparr>"
  let ?w3 = "?w2\<lparr>trace := trace ?w2 @ [LoadModel (p @ ''.sav''), CrossValPredict descr (Series (Some s) vals) 10 4]\<rparr>"
  have "pickle_load env (p @ ''.sav'') (ustate ?w2) = Inr model" using model by simp
  from get_prediction_eq [OF this cvp]
  have gp: "get_prediction env descr (Series (Some s) vals) (last ?args) ?w2 = (Inr prediction, ?w3)"
    unfolding path .
  have nb: "\<not> set (map str_nat [0..<length (unique vals)]) - set [''0'', ''1''] = {}"
  proof
    assume "set (map str_nat [0..<length (unique vals)]) - set [''0'', ''1''] = {}"
    then have "length (unique vals) \<le> 2" by (simp only: target_names_binary)
    with many show False by (simp add: length_unique)
  qed
  have "trace (snd (log_train env f ?args kwargs w)) =
      trace ?w3 @ [ClassificationReport y_true prediction target_names]"
    unfolding log_train_run [OF cfg body gp]
    using nb names by (simp add: multiclass_report_eq [OF srt] logger_info_def split: sum.splits)
  then show ?thesis using py_sorted_perm_sorted [OF srt] by simp
qed

lemma lower_priority: "lower ''priority'' = ''priority''"
  by (simp add: lower_def lower_char_def)

lemma lower_append: "lower (a @ b) = lower a @ lower b"
  by (simp add: lower_def)

text \<open>
  C3 (as amended). The area name is found by substring match on the lower-cased name
  of the series: \<open>''priority''\<close> if that occurs, else \<open>''ttr''\<close> if that occurs, else
  empty; a name that contains \<open>''priority''\<close> as written yields \<open>''priority''\<close>. The
  target names of the report are the session's entry under the area name followed by
  \<open>''_classes''\<close>.
\<close>

theorem multiclass_area_name:
  assumes srt: "py_sorted vals = Inr y_true"
  shows "areas_name_of s =
           (if (\<exists>ps ss. lower s = ps @ ''priority'' @ ss) then ''priority''
            else if (\<exists>ps ss. lower s = ps @ ''ttr'' @ ss) then ''ttr''
            else [])
         \<and> ((\<exists>ps ss. s = ps @ ''priority'' @ ss) \<longrightarrow> areas_name_of s = ''priority'')
         \<and> multiclass_report env (Some s) vals prediction start w =
             (case session_get (flask_session env) ''predictions_parameters.ini''
                     ''predictions_parameters'' (areas_name_of s @ ''_classes'') of
                Inl e \<Rightarrow> (Inl e, w)
              | Inr target_names \<Rightarrow>
                  (case classification_report env y_true prediction target_names of
                     Inl e \<Rightarrow> Inl e
                   | Inr rep \<Rightarrow>
                       Inr (report_text (str_timedelta env (now env (ustate w) - start))
                              (areas_name_of s) rep),
                   w\<lparr>trace := trace w @ [ClassificationReport y_true prediction target_names]\<rparr>))"
proof (intro conjI impI)
  show "areas_name_of s =
           (if (\<exists>ps ss. lower s = ps @ ''priority'' @ ss) then ''priority''
            else if (\<exists>ps ss. lower s = ps @ ''ttr'' @ ss) then ''ttr''
            else [])"
    by (simp only: areas_name_of_def sublist_def)
next
  assume "\<exists>ps ss. s = ps @ ''priority'' @ ss"
  then obtain ps ss where "s = ps @ ''priority'' @ ss" by blast
  then have "lower s = lower ps @ ''priority'' @ lower ss"
    by (simp only: lower_append lower_priority)
  then have "sublist ''priority'' (lower s)" unfolding sublist_def by blast
  then show "areas_name_of s = ''priority''" by (simp add: areas_name_of_def)
next
  show "multiclass_report env (Some s) vals prediction start w =
             (case session_get (flask_session env) ''predictions_parameters.ini''
                     ''predictions_parameters'' (areas_name_of s @ ''_classes'') of
                Inl e \<Rightarrow> (Inl e, w)
              | Inr target_names \<Rightarrow>
                  (case classification_report env y_true prediction target_names of
                     Inl e \<Rightarrow> Inl e
                   | Inr rep \<Rightarrow>
                       Inr (report_text (str_timedelta env (now env (ustate w) - start))
                              (areas_name_of s) rep),
                   w\<lparr>trace := trace w @ [ClassificationReport y_true prediction target_names]\<rparr>))"
    by (rule multiclass_report_eq [OF srt])
qed

section \<open>Runs on the concrete session\<close>

lemma amoh_demo: "at_most_one_handler (f_name (demo_func r)) demo_world"
  by (simp add: at_most_one_handler_def demo_world_def)

lemma body_demo: "f_body (demo_func r) args [] (ustate (demo_ready lv)) = (r, 5)"
  by (simp add: demo_func_def demo_ready_def)

lemma body_demo_world: "f_body (demo_func r) args [] (ustate demo_world) = (r, 5)"
  by (simp add: demo_func_def demo_world_def)

lemma off_demo: "get_level (f_name (demo_func r)) ''DO NOT LOG'' = None"
  by (simp add: get_level_def module_eq_str_def)

lemma gp_demo:
  "get_prediction (demo_env lv) descr (Series name vals) (Str p) w =
     (Inr (rev vals),
      w\<lparr>trace := trace w @ [LoadModel (p @ ''.sav''), CrossValPredict descr (Series name vals) 10 4]\<rparr>)"
  by (simp add: get_prediction_def demo_env_def Let_def)

lemma binary_demo:
  "binary_report (demo_env lv) name vals prediction target_names start w =
     (Inr (report_text (str_nat (nat (int (ustate w) - start))) (str_name name)
             (''report'' @ [nl] @ ''accuracy_score '' @ ''0.5'' @ [nl] @ ''roc_auc_score '' @ ''0.5'' @ [nl]
                @ ''matthews_corrcoef '' @ ''0.0'' @ [nl])),
      w\<lparr>trace := trace w @ [ClassificationReport vals prediction target_names,
                              AccuracyScore vals prediction, RocAucScore vals prediction,
                              MatthewsCorrcoef vals prediction]\<rparr>)"
  by (simp add: binary_report_def demo_env_def Let_def)

lemma names_demo_ttr:
  "session_get (flask_session (demo_env lv)) ''predictions_parameters.ini'' ''predictions_parameters''
     ''ttr_classes'' = Inr [''fast'', ''medium'', ''slow'']"
  by (simp add: demo_env_def demo_session_def session_get_def)

lemma names_demo_priority:
  "session_get (flask_session (demo_env lv)) ''predictions_parameters.ini'' ''predictions_parameters''
     ''priority_classes'' = Inr [''low'', ''high'', ''urgent'']"
  by (simp add: demo_env_def demo_session_def session_get_def)

lemma report_demo: "classification_report (demo_env lv) t p n = Inr ''report''"
  by (simp add: demo_env_def)

lemma area_The_TTR: "areas_name_of ''The TTR'' = ''ttr''"
  by (simp add: areas_name_of_def lower_def lower_char_def sublist_Cons_right)

lemma area_TTR: "areas_name_of ''TTR'' = ''ttr''"
  by (simp add: areas_name_of_def lower_def lower_char_def sublist_Cons_right)

lemma area_my_priority: "areas_name_of ''my priority'' = ''priority''"
  by (simp add: areas_name_of_def lower_def lower_char_def sublist_Cons_right)

lemma sorted_312: "py_sorted [Num 3, Num 1, Num 2] = Inr [Num 1, Num 2, Num 3]"
  by (simp add: py_sorted_def)

lemma unique_232: "length (unique [Num 2, Num 3, Num 2]) = 2"
  by (simp add: unique_def)

lemma unique_0101: "length (unique [Num 0, Num 1, Num 0, Num 1]) = 2"
  by (simp add: unique_def)

lemma names_2: "set (map str_nat [0..<2]) - set [''0'', ''1''] = {}"
  by (simp only: target_names_binary)

theorem log_returns_result_witness:
  "(\<exists>w'. log (demo_env ''INFO'') (demo_func (Inr (Str ''ok''))) [Obj 1] [] demo_world = (Inr (Str ''ok''), w')
          \<and> length (sink w') = 1)
   \<and> (\<exists>w'. log (demo_env ''ERROR'') (demo_func (Inr (Str ''ok''))) [Obj 1] [] demo_world = (Inr (Str ''ok''), w')
          \<and> sink w' = [])
   \<and> (\<exists>w'. log (demo_env ''DO NOT LOG'') (demo_func (Inr (Str ''ok''))) [Obj 1] [] demo_world = (Inr (Str ''ok''), w')
          \<and> sink w' = [])"
proof (intro conjI)
  show "\<exists>w'. log (demo_env ''INFO'') (demo_func (Inr (Str ''ok''))) [Obj 1] [] demo_world = (Inr (Str ''ok''), w')
          \<and> length (sink w') = 1"
    using log_returns_result [where f = "demo_func (Inr (Str ''ok''))" and args = "[Obj 1]"
        and kwargs = "[]" and v = "Str ''ok''", OF sess_demo lbc_demo_info amoh_demo body_demo]
    by (auto simp: demo_world_def)
next
  show "\<exists>w'. log (demo_env ''ERROR'') (demo_func (Inr (Str ''ok''))) [Obj 1] [] demo_world = (Inr (Str ''ok''), w')
          \<and> sink w' = []"
    using log_returns_result [where f = "demo_func (Inr (Str ''ok''))" and args = "[Obj 1]"
        and kwargs = "[]" and v = "Str ''ok''", OF sess_demo lbc_demo_error amoh_demo body_demo]
    by (auto simp: demo_world_def)
next
  have "f_body (demo_func (Inr (Str ''ok''))) [Obj 1] []
          (ustate (demo_world\<lparr>loggers := [(''train'', \<lparr>lg_level = 0, lg_handlers = []\<rparr>)]\<rparr>)) = (Inr (Str ''ok''), 5)"
    by (simp add: demo_func_def demo_world_def)
  from log_returns_result [where f = "demo_func (Inr (Str ''ok''))" and args = "[Obj 1]"
        and kwargs = "[]" and v = "Str ''ok''", OF sess_demo lbc_demo_off amoh_demo this]
  show "\<exists>w'. log (demo_env ''DO NOT LOG'') (demo_func (Inr (Str ''ok''))) [Obj 1] [] demo_world = (Inr (Str ''ok''), w')
          \<and> sink w' = []"
    by (auto simp: demo_world_def)
qed

text \<open>
  C4 as stated fails: at level \<open>''ERROR''\<close> logging is enabled, the wrapped function
  returns normally, its value is returned, and no line is written.
\<close>

theorem log_error_level_counterexample:
  "load_base_loggers_config (demo_env ''ERROR'') (demo_func (Inr (Str ''ok''))) demo_world
     = (Inr (Some ''train''), demo_ready 40)
   \<and> fst (log (demo_env ''ERROR'') (demo_func (Inr (Str ''ok''))) [Obj 1] [] demo_world) = Inr (Str ''ok'')
   \<and> sink (snd (log (demo_env ''ERROR'') (demo_func (Inr (Str ''ok''))) [Obj 1] [] demo_world)) = []"
proof -
  have "log (demo_env ''ERROR'') (demo_func (Inr (Str ''ok''))) [Obj 1] [] demo_world =
      (Inr (Str ''ok''),
       logger_info ''train''
         (call_message (demo_env ''ERROR'') (demo_func (Inr (Str ''ok''))) [Obj 1] []
            (now (demo_env ''ERROR'') 5 - now (demo_env ''ERROR'') (ustate (demo_ready 40))) (Str ''ok''))
         ((demo_ready 40)\<lparr>trace := trace (demo_ready 40) @ [CallFunc [Obj 1] []], ustate := 5\<rparr>))"
    using call_func_eq [OF body_demo]
    by (simp add: log_def lbc_demo_error Let_def)
  moreover have "\<And>msg. sink (logger_info ''train'' msg
         ((demo_ready 40)\<lparr>trace := trace (demo_ready 40) @ [CallFunc [Obj 1] []], ustate := 5\<rparr>)) = []"
    by (simp add: logger_info_def logger_log_def demo_ready_def logging_INFO_def)
  ultimately show ?thesis by (simp add: lbc_demo_error)
qed

lemma f_name_demo: "f_name (demo_func r) = ''train''"
  by (simp add: demo_func_def)

lemma format_exc_demo: "format_exc (demo_env lv) e = ''Traceback''"
  by (simp add: demo_env_def)

lemma sink_demo_world: "sink demo_world = []"
  by (simp add: demo_world_def)

lemma last_demo_args: "last (d # a # [Str p]) = Str p"
  by simp

theorem raise_logged_and_reraised_witness:
  "(\<exists>w'. log (demo_env ''INFO'') (demo_func (Inl (Raised ''ValueError''))) [Obj 1] [] demo_world
            = (Inl (Raised ''ValueError''), w')
          \<and> trace w' = trace (demo_ready 20) @ [CallFunc [Obj 1] []]
          \<and> (\<exists>fl. sink w' = [\<lparr>l_file = fl, l_levelno = 40, l_name = ''train'', l_message = ''Traceback''\<rparr>]))
   \<and> (\<exists>w'. log_train (demo_env ''INFO'') (demo_func (Inl (Raised ''ValueError'')))
              (demo_args ''ttr'' [Num 0, Num 1]) [] demo_world
            = (Inl (Raised ''ValueError''), w')
          \<and> trace w' = trace (demo_ready 20) @ [CallFunc (demo_args ''ttr'' [Num 0, Num 1]) []]
          \<and> (\<exists>fl. sink w' = [\<lparr>l_file = fl, l_levelno = 40, l_name = ''train'', l_message = ''Traceback''\<rparr>]))"
  using raise_logged_and_reraised [where f = "demo_func (Inl (Raised ''ValueError''))"
      and args = "[Obj 1]" and kwargs = "[]" and e = "Raised ''ValueError''" and u = 5
      and descr = "Series None [Txt ''a'', Txt ''b'', Txt ''c'', Txt ''d'']" and name = "Some ''ttr''"
      and vals = "[Num 0, Num 1]" and rest = "[Str ''models/m'']",
      OF lbc_demo_info amoh_demo]
  by (simp add: body_demo demo_args_def sink_demo_world logging_ERROR_def format_exc_demo f_name_demo)

text \<open>
  C5 as stated fails: a \<^verbatim>\<open>KeyboardInterrupt\<close> raised by the wrapped function passes both
  decorators with no line written.
\<close>

theorem base_exception_counterexample:
  "fst (log (demo_env ''INFO'') (demo_func (Inl (BaseRaised ''KeyboardInterrupt''))) [Obj 1] [] demo_world)
     = Inl (BaseRaised ''KeyboardInterrupt'')
   \<and> sink (snd (log (demo_env ''INFO'') (demo_func (Inl (BaseRaised ''KeyboardInterrupt''))) [Obj 1] []
                  demo_world)) = []
   \<and> fst (log_train (demo_env ''INFO'') (demo_func (Inl (BaseRaised ''KeyboardInterrupt'')))
            (demo_args ''ttr'' [Num 0, Num 1]) [] demo_world)
     = Inl (BaseRaised ''KeyboardInterrupt'')
   \<and> sink (snd (log_train (demo_env ''INFO'') (demo_func (Inl (BaseRaised ''KeyboardInterrupt'')))
                  (demo_args ''ttr'' [Num 0, Num 1]) [] demo_world)) = []"
proof -
  have "log (demo_env ''INFO'') (demo_func (Inl (BaseRaised ''KeyboardInterrupt''))) [Obj 1] [] demo_world =
      (Inl (BaseRaised ''KeyboardInterrupt''),
       (demo_ready 20)\<lparr>trace := trace (demo_ready 20) @ [CallFunc [Obj 1] []], ustate := 5\<rparr>)"
    using call_func_eq [OF body_demo]
    by (simp add: log_def lbc_demo_info Let_def)
  moreover have "log_train (demo_env ''INFO'') (demo_func (Inl (BaseRaised ''KeyboardInterrupt'')))
            (demo_args ''ttr'' [Num 0, Num 1]) [] demo_world =
      (Inl (BaseRaised ''KeyboardInterrupt''),
       (demo_ready 20)\<lparr>trace := trace (demo_ready 20) @ [CallFunc (demo_args ''ttr'' [Num 0, Num 1]) []],
                        ustate := 5\<rparr>)"
    using call_func_eq [OF body_demo]
    unfolding demo_args_def
    by (simp add: log_train_def lbc_demo_info Let_def)
  ultimately show ?thesis by (simp add: demo_ready_def)
qed

lemma demo_run_binary:
  "log_train (demo_env ''INFO'') (demo_func r) (demo_args name vals) kwargs demo_world =
   (case (if set (map str_nat [0..<length (unique vals)]) - set [''0'', ''1''] = {}
          then binary_report (demo_env ''INFO'') (Some name) vals (rev vals)
                 (map str_nat [0..<length (unique vals)]) (now (demo_env ''INFO'') (ustate (demo_ready 20)))
                 ((demo_ready 20)\<lparr>trace := trace (demo_ready 20) @ [CallFunc (demo_args name vals) []],
                                   ustate := 5\<rparr>
                    \<lparr>trace := trace ((demo_ready 20)\<lparr>trace := trace (demo_ready 20)
                                         @ [CallFunc (demo_args name vals) []], ustate := 5\<rparr>)
                        @ [LoadModel ''models/m.sav'',
                           CrossValPredict (Series None [Txt ''a'', Txt ''b'', Txt ''c'', Txt ''d''])
                             (Series (Some name) vals) 10 4]\<rparr>)
          else multiclass_report (demo_env ''INFO'') (Some name) vals (rev vals)
                 (now (demo_env ''INFO'') (ustate (demo_ready 20)))
                 ((demo_ready 20)\<lparr>trace := trace (demo_ready 20) @ [CallFunc (demo_args name vals) []],
                                   ustate := 5\<rparr>
                    \<lparr>trace := trace ((demo_ready 20)\<lparr>trace := trace (demo_ready 20)
                                         @ [CallFunc (demo_args name vals) []], ustate := 5\<rparr>)
                        @ [LoadModel ''models/m.sav'',
                           CrossValPredict (Series None [Txt ''a'', Txt ''b'', Txt ''c'', Txt ''d''])
                             (Series (Some name) vals) 10 4]\<rparr>)) of
      (Inl e, w4) \<Rightarrow> (Inl e, w4)
    | (Inr result, w4) \<Rightarrow> (Inr NoneV, logger_info ''train'' result w4))"
  if "r = Inr v"
proof -
  let ?d = "Series None [Txt ''a'', Txt ''b'', Txt ''c'', Txt ''d'']"
  let ?a = "Series (Some name) vals"
  let ?w2 = "(demo_ready 20)\<lparr>trace := trace (demo_ready 20) @ [CallFunc (?d # ?a # [Str ''models/m'']) []],
               ustate := 5\<rparr>"
  have body: "f_body (demo_func r) (?d # ?a # [Str ''models/m'']) [] (ustate (demo_ready 20)) = (Inr v, 5)"
    using that by (simp add: body_demo)
  have gp: "get_prediction (demo_env ''INFO'') ?d ?a (last (?d # ?a # [Str ''models/m''])) ?w2 =
      (Inr (rev vals),
       ?w2\<lparr>trace := trace ?w2 @ [LoadModel (''models/m'' @ ''.sav''), CrossValPredict ?d ?a 10 4]\<rparr>)"
    unfolding last_demo_args by (rule gp_demo)
  show ?thesis
    unfolding demo_args_def log_train_run [OF lbc_demo_info body gp] by simp
qed

theorem log_train_returns_None_witness:
  "fst (log_train (demo_env ''INFO'') (demo_func (Inr (Str ''ok''))) (demo_args ''ttr'' [Num 0, Num 1, Num 0, Num 1])
          [] demo_world) = Inr NoneV
   \<and> fst (log_train (demo_env ''DO NOT LOG'') (demo_func (Inr (Str ''ok'')))
            (demo_args ''ttr'' [Num 0, Num 1, Num 0, Num 1]) [] demo_world) = Inr NoneV"
proof
  have "\<exists>r. fst (log_train (demo_env ''INFO'') (demo_func (Inr (Str ''ok'')))
          (demo_args ''ttr'' [Num 0, Num 1, Num 0, Num 1]) [] demo_world) = Inr r"
    unfolding demo_run_binary [OF refl] unique_0101 names_2 if_True
    by (simp add: binary_demo)
  then show "fst (log_train (demo_env ''INFO'') (demo_func (Inr (Str ''ok'')))
          (demo_args ''ttr'' [Num 0, Num 1, Num 0, Num 1]) [] demo_world) = Inr NoneV"
    using log_train_returns_None [where env = "demo_env ''INFO''" and f = "demo_func (Inr (Str ''ok''))"
        and args = "demo_args ''ttr'' [Num 0, Num 1, Num 0, Num 1]" and kwargs = "[]" and w = demo_world]
    by auto
next
  have "f_body (demo_func (Inr (Str ''ok''))) (demo_args ''ttr'' [Num 0, Num 1, Num 0, Num 1]) []
          (ustate (demo_world\<lparr>loggers := [(''train'', \<lparr>lg_level = 0, lg_handlers = []\<rparr>)]\<rparr>))
        = (Inr (Str ''ok''), 5)"
    by (simp add: demo_func_def demo_world_def)
  with lbc_demo_off
  show "fst (log_train (demo_env ''DO NOT LOG'') (demo_func (Inr (Str ''ok'')))
            (demo_args ''ttr'' [Num 0, Num 1, Num 0, Num 1]) [] demo_world) = Inr NoneV"
    using log_train_returns_None [where env = "demo_env ''DO NOT LOG''" and f = "demo_func (Inr (Str ''ok''))"
        and args = "demo_args ''ttr'' [Num 0, Num 1, Num 0, Num 1]" and kwargs = "[]" and w = demo_world]
    by blast
qed

theorem log_train_disabled_witness:
  "\<exists>w'. log_train (demo_env ''DO NOT LOG'') (demo_func (Inr (Str ''ok''))) (demo_args ''ttr'' [Num 0, Num 1])
           [(''cv'', Obj 3)] demo_world = (Inr NoneV, w')
        \<and> trace w' = [CallFunc (demo_args ''ttr'' [Num 0, Num 1]) []]
        \<and> sink w' = []
        \<and> ustate w' = 5
        \<and> loggers w' = [(''train'', \<lparr>lg_level = 0, lg_handlers = []\<rparr>)]"
  using log_train_disabled [where f = "demo_func (Inr (Str ''ok''))"
      and args = "demo_args ''ttr'' [Num 0, Num 1]" and kwargs = "[(''cv'', Obj 3)]",
      OF sess_demo off_demo body_demo_world]
  by (simp add: demo_world_def demo_func_def)

theorem log_train_ignores_kwargs_witness:
  "log_train (demo_env ''DO NOT LOG'') (demo_func (Inr (Str ''ok''))) (demo_args ''ttr'' [Num 0, Num 1])
     [(''cv'', Obj 3)] demo_world
   = log_train (demo_env ''DO NOT LOG'') (demo_func (Inr (Str ''ok''))) (demo_args ''ttr'' [Num 0, Num 1])
       [] demo_world
   \<and> CallFunc (demo_args ''ttr'' [Num 0, Num 1]) [(''cv'', Obj 3)]
       \<notin> set (trace (snd (log_train (demo_env ''DO NOT LOG'') (demo_func (Inr (Str ''ok'')))
                            (demo_args ''ttr'' [Num 0, Num 1]) [(''cv'', Obj 3)] demo_world)))
   \<and> trace (snd (log_train (demo_env ''DO NOT LOG'') (demo_func (Inr (Str ''ok'')))
                   (demo_args ''ttr'' [Num 0, Num 1]) [(''cv'', Obj 3)] demo_world))
       = [CallFunc (demo_args ''ttr'' [Num 0, Num 1]) []]
   \<and> ustate (snd (log_train (demo_env ''DO NOT LOG'') (demo_func (Inr (Str ''ok'')))
                    (demo_args ''ttr'' [Num 0, Num 1]) [(''cv'', Obj 3)] demo_world)) = 5
   \<and> fst (log_train (demo_env ''DO NOT LOG'') (demo_func (Inr (Str ''ok'')))
            (demo_args ''ttr'' [Num 0, Num 1]) [(''cv'', Obj 3)] demo_world) = Inr NoneV
   \<and> (\<exists>tl. trace (snd (log_train (demo_env ''INFO'') (demo_func (Inr (Str ''ok'')))
                         (demo_args ''ttr'' [Num 0, Num 1]) [(''cv'', Obj 3)] demo_world))
             = trace (demo_ready 20) @ CallFunc (demo_args ''ttr'' [Num 0, Num 1]) [] # tl
           \<and> (\<forall>a k. CallFunc a k \<notin> set tl))
   \<and> ustate (snd (log_train (demo_env ''INFO'') (demo_func (Inr (Str ''ok'')))
                    (demo_args ''ttr'' [Num 0, Num 1]) [(''cv'', Obj 3)] demo_world)) = 5"
proof -
  let ?off = "demo_world\<lparr>loggers := [(''train'', \<lparr>lg_level = 0, lg_handlers = []\<rparr>)]\<rparr>"
  note th = log_train_ignores_kwargs [where env = "demo_env ''DO NOT LOG''"
      and f = "demo_func (Inr (Str ''ok''))" and args = "demo_args ''ttr'' [Num 0, Num 1]"
      and kwargs = "[(''cv'', Obj 3)]" and w = demo_world and ?w1.0 = ?off]
  note th_on = log_train_ignores_kwargs [where env = "demo_env ''INFO''"
      and f = "demo_func (Inr (Str ''ok''))" and args = "demo_args ''ttr'' [Num 0, Num 1]"
      and kwargs = "[(''cv'', Obj 3)]" and w = demo_world and ?w1.0 = "demo_ready 20" and lg = "''train''"
      and descr = "Series None [Txt ''a'', Txt ''b'', Txt ''c'', Txt ''d'']" and name = "Some ''ttr''"
      and vals = "[Num 0, Num 1]" and rest = "[Str ''models/m'']"]
  have body_off: "f_body (demo_func (Inr (Str ''ok''))) (demo_args ''ttr'' [Num 0, Num 1]) [] (ustate ?off)
      = (Inr (Str ''ok''), 5)"
    by (simp add: demo_func_def demo_world_def)
  have tr_off: "trace ?off = []"
    by (simp add: demo_world_def)
  have "CallFunc (demo_args ''ttr'' [Num 0, Num 1]) [(''cv'', Obj 3)]
       \<notin> set (trace (snd (log_train (demo_env ''DO NOT LOG'') (demo_func (Inr (Str ''ok'')))
                            (demo_args ''ttr'' [Num 0, Num 1]) [(''cv'', Obj 3)] demo_world)))"
  proof
    assume "CallFunc (demo_args ''ttr'' [Num 0, Num 1]) [(''cv'', Obj 3)]
       \<in> set (trace (snd (log_train (demo_env ''DO NOT LOG'') (demo_func (Inr (Str ''ok'')))
                            (demo_args ''ttr'' [Num 0, Num 1]) [(''cv'', Obj 3)] demo_world)))"
    with th have "CallFunc (demo_args ''ttr'' [Num 0, Num 1]) [(''cv'', Obj 3)] \<in> set (trace demo_world)
        \<or> [(''cv'', Obj 3)] = ([] :: (string \<times> pyval) list)"
      by blast
    then show False by (simp add: demo_world_def)
  qed
  moreover from th have "log_train (demo_env ''DO NOT LOG'') (demo_func (Inr (Str ''ok'')))
        (demo_args ''ttr'' [Num 0, Num 1]) [(''cv'', Obj 3)] demo_world
      = log_train (demo_env ''DO NOT LOG'') (demo_func (Inr (Str ''ok''))) (demo_args ''ttr'' [Num 0, Num 1])
          [] demo_world"
    by blast
  moreover from th lbc_demo_off have
    "trace (snd (log_train (demo_env ''DO NOT LOG'') (demo_func (Inr (Str ''ok'')))
                   (demo_args ''ttr'' [Num 0, Num 1]) [(''cv'', Obj 3)] demo_world))
       = trace ?off @ [CallFunc (demo_args ''ttr'' [Num 0, Num 1]) []]
     \<and> ustate (snd (log_train (demo_env ''DO NOT LOG'') (demo_func (Inr (Str ''ok'')))
                    (demo_args ''ttr'' [Num 0, Num 1]) [(''cv'', Obj 3)] demo_world))
       = snd (f_body (demo_func (Inr (Str ''ok''))) (demo_args ''ttr'' [Num 0, Num 1]) [] (ustate ?off))
     \<and> fst (log_train (demo_env ''DO NOT LOG'') (demo_func (Inr (Str ''ok'')))
            (demo_args ''ttr'' [Num 0, Num 1]) [(''cv'', Obj 3)] demo_world)
       = (case fst (f_body (demo_func (Inr (Str ''ok''))) (demo_args ''ttr'' [Num 0, Num 1]) [] (ustate ?off)) of
            Inl e \<Rightarrow> Inl e | Inr v \<Rightarrow> Inr NoneV)"
    by blast
  moreover have "demo_args ''ttr'' [Num 0, Num 1] =
      Series None [Txt ''a'', Txt ''b'', Txt ''c'', Txt ''d''] # Series (Some ''ttr'') [Num 0, Num 1]
        # [Str ''models/m'']"
    by (simp add: demo_args_def)
  with th_on lbc_demo_info have
    "(\<exists>tl. trace (snd (log_train (demo_env ''INFO'') (demo_func (Inr (Str ''ok'')))
                         (demo_args ''ttr'' [Num 0, Num 1]) [(''cv'', Obj 3)] demo_world))
             = trace (demo_ready 20) @ CallFunc (demo_args ''ttr'' [Num 0, Num 1]) [] # tl
           \<and> (\<forall>a k. CallFunc a k \<notin> set tl))
     \<and> ustate (snd (log_train (demo_env ''INFO'') (demo_func (Inr (Str ''ok'')))
                    (demo_args ''ttr'' [Num 0, Num 1]) [(''cv'', Obj 3)] demo_world))
       = snd (f_body (demo_func (Inr (Str ''ok''))) (demo_args ''ttr'' [Num 0, Num 1]) []
                (ustate (demo_ready 20)))"
    by blast
  ultimately show ?thesis
    unfolding body_off body_demo tr_off by simp
qed

lemma pickle_demo: "pickle_load (demo_env lv) p u = Inr 0"
  by (simp add: demo_env_def)

lemma cvp_demo: "cross_val_predict (demo_env lv) m descr (Series name vals) 10 4 = Inr (rev vals)"
  by (simp add: demo_env_def)

theorem binary_branch_condition_witness:
  "RocAucScore [Num 0, Num 1, Num 0, Num 1] [Num 1, Num 0, Num 1, Num 0]
     \<in> set (trace (snd (log_train (demo_env ''INFO'') (demo_func (Inr (Str ''ok'')))
                          (demo_args ''ttr'' [Num 0, Num 1, Num 0, Num 1]) [] demo_world)))
   \<and> fst (log_train (demo_env ''INFO'') (demo_func (Inr (Str ''ok'')))
            (demo_args ''ttr'' [Num 0, Num 1, Num 0, Num 1]) [] demo_world) = Inr NoneV"
proof -
  let ?d = "Series None [Txt ''a'', Txt ''b'', Txt ''c'', Txt ''d'']"
  let ?a = "Series (Some ''ttr'') [Num 0, Num 1, Num 0, Num 1]"
  let ?w2 = "(demo_ready 20)\<lparr>trace := trace (demo_ready 20) @ [CallFunc (?d # ?a # [Str ''models/m'']) []],
               ustate := 5\<rparr>"
  have body: "f_body (demo_func (Inr (Str ''ok''))) (?d # ?a # [Str ''models/m'']) [] (ustate (demo_ready 20))
      = (Inr (Str ''ok''), 5)"
    by (rule body_demo)
  have gp: "get_prediction (demo_env ''INFO'') ?d ?a (last (?d # ?a # [Str ''models/m''])) ?w2 =
      (Inr [Num 1, Num 0, Num 1, Num 0],
       ?w2\<lparr>trace := trace ?w2 @ [LoadModel ''models/m.sav'', CrossValPredict ?d ?a 10 4]\<rparr>)"
    by (simp add: gp_demo)
  have two: "card (set [Num 0, Num 1, Num 0, Num 1]) \<le> 2"
    unfolding length_unique [symmetric] unique_0101 by simp
  show ?thesis
    unfolding demo_args_def binary_branch_condition [OF lbc_demo_info body gp] if_P [OF two]
    by (simp add: binary_demo logger_info_def)
qed

text \<open>
  C1 as stated fails: the labels \<open>2, 3, 2\<close> are not the set \<open>{0, 1}\<close>, and the run
  computes the ROC-AUC score of the binary branch.
\<close>

theorem binary_branch_counterexample:
  "set [Num 2, Num 3, Num 2] \<noteq> {Num 0, Num 1}
   \<and> RocAucScore [Num 2, Num 3, Num 2] [Num 2, Num 3, Num 2]
       \<in> set (trace (snd (log_train (demo_env ''INFO'') (demo_func (Inr (Str ''ok'')))
                            (demo_args ''ttr'' [Num 2, Num 3, Num 2]) [] demo_world)))"
proof
  have "Num 2 \<in> set [Num 2, Num 3, Num 2]" by simp
  moreover have "Num 2 \<notin> {Num 0, Num 1}" by simp
  ultimately show "set [Num 2, Num 3, Num 2] \<noteq> {Num 0, Num 1}"
    by metis
next
  show "RocAucScore [Num 2, Num 3, Num 2] [Num 2, Num 3, Num 2]
       \<in> set (trace (snd (log_train (demo_env ''INFO'') (demo_func (Inr (Str ''ok'')))
                            (demo_args ''ttr'' [Num 2, Num 3, Num 2]) [] demo_world)))"
    unfolding demo_run_binary [OF refl] unique_232 names_2 if_True
    by (simp add: binary_demo logger_info_def)
qed

theorem multiclass_sorted_true_labels_witness:
  "trace (snd (log_train (demo_env ''INFO'') (demo_func (Inr (Str ''ok'')))
                 (demo_args ''The TTR'' [Num 3, Num 1, Num 2]) [] demo_world)) =
     trace (demo_ready 20) @
       [CallFunc (demo_args ''The TTR'' [Num 3, Num 1, Num 2]) [], LoadModel ''models/m.sav'',
        CrossValPredict (Series None [Txt ''a'', Txt ''b'', Txt ''c'', Txt ''d''])
          (Series (Some ''The TTR'') [Num 3, Num 1, Num 2]) 10 4,
        ClassificationReport [Num 1, Num 2, Num 3] [Num 2, Num 1, Num 3] [''fast'', ''medium'', ''slow'']]"
proof -
  have "length (unique [Num 3, Num 1, Num 2]) = 3"
    by (simp add: unique_def)
  then have many: "2 < card (set [Num 3, Num 1, Num 2])"
    unfolding length_unique [symmetric] by simp
  have names: "session_get (flask_session (demo_env ''INFO'')) ''predictions_parameters.ini''
      ''predictions_parameters'' (areas_name_of ''The TTR'' @ ''_classes'') = Inr [''fast'', ''medium'', ''slow'']"
    by (simp add: area_The_TTR names_demo_ttr)
  have cvp: "cross_val_predict (demo_env ''INFO'') 0 (Series None [Txt ''a'', Txt ''b'', Txt ''c'', Txt ''d''])
      (Series (Some ''The TTR'') [Num 3, Num 1, Num 2]) 10 4 = Inr [Num 2, Num 1, Num 3]"
    by (simp add: cvp_demo)
  from multiclass_sorted_true_labels [where kwargs = "[]", OF lbc_demo_info body_demo last_demo_args pickle_demo cvp many
      sorted_312 names]
  show ?thesis
    by (simp add: demo_args_def)
qed

theorem multiclass_area_name_witness:
  "areas_name_of ''my priority'' = ''priority''
   \<and> trace (snd (multiclass_report (demo_env ''INFO'') (Some ''my priority'') [Num 3, Num 1, Num 2]
                    [Num 2, Num 1, Num 3] 0 demo_world)) =
       [ClassificationReport [Num 1, Num 2, Num 3] [Num 2, Num 1, Num 3] [''low'', ''high'', ''urgent'']]"
proof -
  note th = multiclass_area_name [OF sorted_312, where s = "''my priority''" and env = "demo_env ''INFO''"
      and prediction = "[Num 2, Num 1, Num 3]" and start = 0 and w = demo_world]
  have "''my priority'' = ''my '' @ ''priority'' @ []" by simp
  then have "\<exists>ps ss. ''my priority'' = ps @ ''priority'' @ ss" by blast
  with th have an: "areas_name_of ''my priority'' = ''priority''" by blast
  from th have "multiclass_report (demo_env ''INFO'') (Some ''my priority'') [Num 3, Num 1, Num 2]
       [Num 2, Num 1, Num 3] 0 demo_world =
     (case session_get (flask_session (demo_env ''INFO'')) ''predictions_parameters.ini''
             ''predictions_parameters'' (areas_name_of ''my priority'' @ ''_classes'') of
        Inl e \<Rightarrow> (Inl e, demo_world)
      | Inr target_names \<Rightarrow>
          (case classification_report (demo_env ''INFO'') [Num 1, Num 2, Num 3] [Num 2, Num 1, Num 3] target_names of
             Inl e \<Rightarrow> Inl e
           | Inr rep \<Rightarrow>
               Inr (report_text (str_timedelta (demo_env ''INFO'') (now (demo_env ''INFO'') (ustate demo_world) - 0))
                      (areas_name_of ''my priority'') rep),
           demo_world\<lparr>trace := trace demo_world @
              [ClassificationReport [Num 1, Num 2, Num 3] [Num 2, Num 1, Num 3] target_names]\<rparr>))"
    by blast
  then have "trace (snd (multiclass_report (demo_env ''INFO'') (Some ''my priority'') [Num 3, Num 1, Num 2]
                    [Num 2, Num 1, Num 3] 0 demo_world)) =
       [ClassificationReport [Num 1, Num 2, Num 3] [Num 2, Num 1, Num 3] [''low'', ''high'', ''urgent'']]"
    by (simp add: an names_demo_priority demo_world_def)
  with an show ?thesis by simp
qed

text \<open>
  C3 as stated fails: the name \<open>''TTR''\<close> contains neither \<open>''priority''\<close> nor \<open>''ttr''\<close>,
  and its area name is \<open>''ttr''\<close>, with the target names read under \<open>''ttr_classes''\<close>.
\<close>

theorem area_name_case_counterexample:
  "\<not> sublist ''priority'' ''TTR'' \<and> \<not> sublist ''ttr'' ''TTR'' \<and> areas_name_of ''TTR'' = ''ttr''
   \<and> trace (snd (multiclass_report (demo_env ''INFO'') (Some ''TTR'') [Num 3, Num 1, Num 2]
                    [Num 2, Num 1, Num 3] 0 demo_world)) =
       [ClassificationReport [Num 1, Num 2, Num 3] [Num 2, Num 1, Num 3] [''fast'', ''medium'', ''slow'']]"
proof (intro conjI)
  show "\<not> sublist ''priority'' ''TTR''" by (simp add: sublist_Cons_right)
  show "\<not> sublist ''ttr'' ''TTR''" by (simp add: sublist_Cons_right)
  show "areas_name_of ''TTR'' = ''ttr''" by (rule area_TTR)
  show "trace (snd (multiclass_report (demo_env ''INFO'') (Some ''TTR'') [Num 3, Num 1, Num 2]
                    [Num 2, Num 1, Num 3] 0 demo_world)) =
       [ClassificationReport [Num 1, Num 2, Num 3] [Num 2, Num 1, Num 3] [''fast'', ''medium'', ''slow'']]"
    by (simp add: multiclass_report_eq [OF sorted_312] area_TTR names_demo_ttr demo_world_def)
qed

end
